theory Spec2Isabelle
  imports Main "HOL-Library.Word"
begin

section \<open>Values shared by the logging support and the decorators\<close>

text \<open>
  A Go \<^verbatim>\<open>[]byte\<close> and a Go \<^verbatim>\<open>string\<close> are both sequences of bytes, and
  \<^typ>\<open>char\<close> is a byte, so both are \<^typ>\<open>string\<close> here and the conversion
  \<^verbatim>\<open>string(data)\<close> is the identity.
\<close>

type_synonym bytes = string

text \<open>\<^verbatim>\<open>time.Time\<close> and \<^verbatim>\<open>time.Duration\<close>, both counted in nanoseconds.\<close>

type_synonym Time = int
type_synonym Duration = int

text \<open>\<^verbatim>\<open>fs.FileMode\<close> is a \<^verbatim>\<open>uint32\<close>.\<close>

type_synonym FileMode = "32 word"

text \<open>
  What the code reads of an \<^verbatim>\<open>*os.ProcessState\<close>: the results of its methods
  \<^verbatim>\<open>Exited()\<close>, \<^verbatim>\<open>ExitCode()\<close>, \<^verbatim>\<open>Pid()\<close>, \<^verbatim>\<open>UserTime()\<close> and
  \<^verbatim>\<open>SystemTime()\<close>.
\<close>

record ProcessState =
  Exited :: bool
  ExitCode :: int
  Pid :: int
  UserTime :: Duration
  SystemTime :: Duration

text \<open>
  A non-nil Go \<^verbatim>\<open>error\<close>: an \<^verbatim>\<open>*exec.ExitError\<close> with its embedded
  \<^verbatim>\<open>*os.ProcessState\<close> (which may be nil), any other error, or an error that wraps
  another one. The nil error is \<^term>\<open>None\<close> of \<open>error option\<close>.
\<close>

datatype error =
    ExitError "ProcessState option"
  | OtherError string
  | Wrapped string error

text \<open>
  An \<^verbatim>\<open>*exec.Cmd\<close>, by its argument vector, its working directory and its
  environment. Its field \<^verbatim>\<open>Path\<close> is not part of the model: \<^verbatim>\<open>exec.Command\<close>
  resolves it through the search path of the process.
\<close>

record Cmd =
  Args :: "string list"
  Dir :: string
  Env :: "string list"

text \<open>
  \<^verbatim>\<open>exec.Command(name, arg...)\<close> of the standard library: the command has the
  argument vector \<open>name # arg\<close>, and neither a working directory nor an
  environment of its own.
\<close>

definition exec_Command :: "string \<Rightarrow> string list \<Rightarrow> Cmd" where
  "exec_Command name arg = \<lparr>Cmd.Args = name # arg, Dir = [], Env = []\<rparr>"

text \<open>The \<^verbatim>\<open>Interpreter\<close> struct; a \<^verbatim>\<open>*Interpreter\<close> is an \<open>Interpreter option\<close>.\<close>

record Interpreter =
  Command :: string
  Args :: "string list"

text \<open>
  Interface values the decorators hand through without looking inside
  (\<^verbatim>\<open>fs.FileInfo\<close>, \<^verbatim>\<open>fs.DirEntry\<close>, \<^verbatim>\<open>vfs.FS\<close>, the \<^verbatim>\<open>any\<close> of
  \<^verbatim>\<open>Data\<close>, another \<^verbatim>\<open>PersistentState\<close>) are opaque references.
\<close>

datatype handle = Handle nat

subsection \<open>Log records\<close>

datatype any =
    AnyError "error option"
  | AnyBytes bytes
  | AnyStrings "string list"
  | AnyCmd Cmd
  | AnyInterpreter "Interpreter option"
  | AnyHandle handle

datatype Value =
    StringValue string
  | IntValue int
  | DurationValue Duration
  | TimeValue Time
  | AnyValue any

type_synonym Attr = "string \<times> Value"

definition slog_String :: "string \<Rightarrow> string \<Rightarrow> Attr" where
  "slog_String key v = (key, StringValue v)"

definition slog_Int :: "string \<Rightarrow> int \<Rightarrow> Attr" where
  "slog_Int key v = (key, IntValue v)"

definition slog_Duration :: "string \<Rightarrow> Duration \<Rightarrow> Attr" where
  "slog_Duration key v = (key, DurationValue v)"

text \<open>
  \<^verbatim>\<open>slog.Time\<close> keeps \<^verbatim>\<open>v.UnixNano()\<close>, a signed 64-bit count of nanoseconds since
  the Unix epoch: a time out of that range is kept wrapped around. Only the
  zero \<^verbatim>\<open>time.Time\<close> (1 January of the year 1, 62135596800 seconds before the
  epoch), for which \<^verbatim>\<open>IsZero()\<close> holds, is kept as it is.
\<close>

definition Time_IsZero :: "Time \<Rightarrow> bool" where
  "Time_IsZero t = (t = - 62135596800 * 1000000000)"

definition Time_UnixNano :: "Time \<Rightarrow> int" where
  "Time_UnixNano t = sint (word_of_int t :: 64 word)"

definition slog_Time :: "string \<Rightarrow> Time \<Rightarrow> Attr" where
  "slog_Time key v = (key, TimeValue (if Time_IsZero v then v else Time_UnixNano v))"

definition slog_Any :: "string \<Rightarrow> any \<Rightarrow> Attr" where
  "slog_Any key v = (key, AnyValue v)"

datatype Level = LevelInfo | LevelError

record Record =
  level :: Level
  message :: string
  attributes :: "Attr list"

section \<open>Package chezmoilog\<close>

definition few :: nat where
  "few = 64"

text \<open>
  \<^verbatim>\<open>FirstFewBytes\<close>: when \<open>data\<close> is longer than \<open>few\<close>, a copy of its first
  \<open>few\<close> bytes with the three bytes \<^verbatim>\<open>'.', '.', '.'\<close> appended; otherwise \<open>data\<close>.
\<close>

definition FirstFewBytes :: "bytes \<Rightarrow> bytes" where
  "FirstFewBytes data =
     (if length data > few then take few data @ [CHR ''.'', CHR ''.'', CHR ''.'']
      else data)"

definition Output :: "bytes \<Rightarrow> error option \<Rightarrow> bytes" where
  "Output data err = (if err \<noteq> None then data else FirstFewBytes data)"

text \<open>
  \<^verbatim>\<open>errors.As(err, &execExitError)\<close> of the standard library: it follows the chain
  of wrapped errors and finds the first \<^verbatim>\<open>*exec.ExitError\<close>; on the nil error it
  finds nothing.
\<close>

fun as_ExitError :: "error \<Rightarrow> ProcessState option option" where
  "as_ExitError (ExitError ps) = Some ps"
| "as_ExitError (OtherError _) = None"
| "as_ExitError (Wrapped _ e) = as_ExitError e"

definition errors_As_ExitError :: "error option \<Rightarrow> ProcessState option option" where
  "errors_As_ExitError err = (case err of None \<Rightarrow> None | Some e \<Rightarrow> as_ExitError e)"

text \<open>
  \<^verbatim>\<open>AppendExitErrorAttrs\<close>: the methods \<^verbatim>\<open>Exited\<close>, \<^verbatim>\<open>ExitCode\<close>, \<^verbatim>\<open>Pid\<close>,
  \<^verbatim>\<open>UserTime\<close> and \<^verbatim>\<open>SystemTime\<close> of the exit error are those of the process
  state it embeds, and are called only when that state is not nil.
\<close>

definition AppendExitErrorAttrs :: "Attr list \<Rightarrow> error option \<Rightarrow> Attr list" where
  "AppendExitErrorAttrs attrs err =
     (case errors_As_ExitError err of
        None \<Rightarrow> attrs @ [slog_Any ''err'' (AnyError err)]
      | Some None \<Rightarrow> attrs
      | Some (Some processState) \<Rightarrow>
          (let attrs1 =
                 (if Exited processState
                  then attrs @ [slog_Int ''exitCode'' (ExitCode processState)]
                  else attrs @ [slog_Int ''pid'' (Pid processState)]);
               attrs2 =
                 (if UserTime processState \<noteq> 0
                  then attrs1 @ [slog_Duration ''userTime'' (UserTime processState)]
                  else attrs1)
           in if SystemTime processState \<noteq> 0
              then attrs2 @ [slog_Duration ''systemTime'' (SystemTime processState)]
              else attrs2))"

text \<open>
  \<^verbatim>\<open>Stringer(key, s)\<close> is \<^verbatim>\<open>slog.String(key, s.String())\<close>; the second argument
  here is the string that \<^verbatim>\<open>s.String()\<close> returns.
\<close>

definition Stringer :: "string \<Rightarrow> string \<Rightarrow> Attr" where
  "Stringer key s = slog_String key s"

subsection \<open>Programs: state, panics, and the loggers\<close>

text \<open>
  A \<^verbatim>\<open>*slog.Logger\<close> that is not nil is known by its identity; a possibly nil
  pointer is a \<open>Logger option\<close>. The state of the program holds every record handed
  to a logger, in order, with the logger that received it; the wall clock that
  \<^verbatim>\<open>time.Now()\<close> reads; and the rest of the world, which belongs to the wrapped
  implementations and to the callers.
\<close>

datatype Logger = Logger nat

record 'w state =
  emitted :: "(Logger \<times> Record) list"
  clock :: Time
  world :: 'w

datatype panic = NilPointerDereference

text \<open>A call either returns a value or panics, and leaves a state.\<close>

type_synonym ('a, 'w) prog = "'w state \<Rightarrow> (panic + 'a) \<times> 'w state"

definition return :: "'a \<Rightarrow> ('a, 'w) prog" where
  "return x \<sigma> = (Inr x, \<sigma>)"

definition bind :: "('a, 'w) prog \<Rightarrow> ('a \<Rightarrow> ('b, 'w) prog) \<Rightarrow> ('b, 'w) prog" where
  "bind f g \<sigma> = (case f \<sigma> of (Inl p, \<sigma>') \<Rightarrow> (Inl p, \<sigma>') | (Inr x, \<sigma>') \<Rightarrow> g x \<sigma>')"

definition time_Now :: "(Time, 'w) prog" where
  "time_Now \<sigma> = (Inr (clock \<sigma>), \<sigma>)"

definition time_Since :: "Time \<Rightarrow> (Duration, 'w) prog" where
  "time_Since start \<sigma> = (Inr (clock \<sigma> - start), \<sigma>)"

text \<open>
  The methods \<^verbatim>\<open>Error\<close> and \<^verbatim>\<open>Info\<close> of \<^verbatim>\<open>*slog.Logger\<close> (package
  \<^verbatim>\<open>golang.org/x/exp/slog\<close>): they read the logger's handler, so on a nil
  logger they panic; otherwise the logger receives one record. Arguments that
  the source passes as a key string followed by a value are the attribute
  \<^verbatim>\<open>slog.Any(key, value)\<close>, which is what the logger makes of them.
\<close>

definition Logger_log :: "Logger option \<Rightarrow> Level \<Rightarrow> string \<Rightarrow> Attr list \<Rightarrow> (unit, 'w) prog" where
  "Logger_log logger lvl m args \<sigma> =
     (case logger of
        None \<Rightarrow> (Inl NilPointerDereference, \<sigma>)
      | Some l \<Rightarrow>
          (Inr (), \<sigma>\<lparr>emitted := emitted \<sigma> @ [(l, \<lparr>level = lvl, message = m, attributes = args\<rparr>)]\<rparr>))"

definition Logger_Error :: "Logger option \<Rightarrow> string \<Rightarrow> Attr list \<Rightarrow> (unit, 'w) prog" where
  "Logger_Error logger m args = Logger_log logger LevelError m args"

definition Logger_Info :: "Logger option \<Rightarrow> string \<Rightarrow> Attr list \<Rightarrow> (unit, 'w) prog" where
  "Logger_Info logger m args = Logger_log logger LevelInfo m args"

text \<open>
  The package-level \<^verbatim>\<open>slog.Error\<close> and \<^verbatim>\<open>slog.Info\<close> log to the default
  logger of the process, which is never nil.
\<close>

definition slog_Default :: Logger where
  "slog_Default = Logger 0"

definition slog_Error :: "string \<Rightarrow> Attr list \<Rightarrow> (unit, 'w) prog" where
  "slog_Error m args = Logger_Error (Some slog_Default) m args"

definition slog_Info :: "string \<Rightarrow> Attr list \<Rightarrow> (unit, 'w) prog" where
  "slog_Info m args = Logger_Info (Some slog_Default) m args"

definition InfoOrError ::
  "Logger option \<Rightarrow> string \<Rightarrow> error option \<Rightarrow> Attr list \<Rightarrow> (unit, 'w) prog" where
  "InfoOrError logger m err args =
     (if logger = None then return ()
      else if err \<noteq> None then Logger_Error logger m (slog_Any ''err'' (AnyError err) # args)
      else Logger_Info logger m args)"

section \<open>The interpreter of scripts\<close>

definition Interpreter_None :: "Interpreter option \<Rightarrow> bool" where
  "Interpreter_None i = (case i of None \<Rightarrow> True | Some x \<Rightarrow> Command x = [])"

text \<open>
  \<^verbatim>\<open>ExecCommand\<close> reads the fields of \<open>i\<close> after \<^verbatim>\<open>i.None()\<close> has returned
  false; reading them through a nil pointer would panic.
\<close>

definition ExecCommand :: "Interpreter option \<Rightarrow> string \<Rightarrow> panic + Cmd" where
  "ExecCommand i name =
     (if Interpreter_None i then Inr (exec_Command name [])
      else case i of
             None \<Rightarrow> Inl NilPointerDereference
           | Some x \<Rightarrow> Inr (exec_Command (Command x) (Interpreter.Args x @ [name])))"

section \<open>The System interface and its logging decorator\<close>

text \<open>
  \<^verbatim>\<open>AbsPath\<close> and \<^verbatim>\<open>RelPath\<close> wrap a path string, which their method
  \<^verbatim>\<open>String()\<close> returns.
\<close>

datatype AbsPath = NewAbsPath string

fun AbsPath_String :: "AbsPath \<Rightarrow> string" where
  "AbsPath_String (NewAbsPath p) = p"

datatype RelPath = NewRelPath string

fun RelPath_String :: "RelPath \<Rightarrow> string" where
  "RelPath_String (NewRelPath p) = p"

text \<open>The fields of \<^verbatim>\<open>RunScriptOptions\<close> that the decorator reads.\<close>

record RunScriptOptions =
  Interpreter :: "Interpreter option"
  Condition :: string

text \<open>
  The \<^verbatim>\<open>System\<close> interface: one field for each method. An implementation acts on
  the state of the program and returns the method's results (or panics).
\<close>

record 'w System =
  Chtimes :: "AbsPath \<Rightarrow> Time \<Rightarrow> Time \<Rightarrow> (error option, 'w) prog"
  Chmod :: "AbsPath \<Rightarrow> FileMode \<Rightarrow> (error option, 'w) prog"
  Glob :: "string \<Rightarrow> (string list \<times> error option, 'w) prog"
  Link :: "AbsPath \<Rightarrow> AbsPath \<Rightarrow> (error option, 'w) prog"
  Lstat :: "AbsPath \<Rightarrow> (handle \<times> error option, 'w) prog"
  Mkdir :: "AbsPath \<Rightarrow> FileMode \<Rightarrow> (error option, 'w) prog"
  RawPath :: "AbsPath \<Rightarrow> (AbsPath \<times> error option, 'w) prog"
  ReadDir :: "AbsPath \<Rightarrow> (handle list \<times> error option, 'w) prog"
  ReadFile :: "AbsPath \<Rightarrow> (bytes \<times> error option, 'w) prog"
  Readlink :: "AbsPath \<Rightarrow> (string \<times> error option, 'w) prog"
  Remove :: "AbsPath \<Rightarrow> (error option, 'w) prog"
  RemoveAll :: "AbsPath \<Rightarrow> (error option, 'w) prog"
  Rename :: "AbsPath \<Rightarrow> AbsPath \<Rightarrow> (error option, 'w) prog"
  RunCmd :: "Cmd \<Rightarrow> (error option, 'w) prog"
  RunScript :: "RelPath \<Rightarrow> AbsPath \<Rightarrow> bytes \<Rightarrow> RunScriptOptions \<Rightarrow> (error option, 'w) prog"
  Stat :: "AbsPath \<Rightarrow> (handle \<times> error option, 'w) prog"
  UnderlyingFS :: "(handle, 'w) prog"
  WriteFile :: "AbsPath \<Rightarrow> bytes \<Rightarrow> FileMode \<Rightarrow> (error option, 'w) prog"
  WriteSymlink :: "string \<Rightarrow> AbsPath \<Rightarrow> (error option, 'w) prog"

record 'w DebugSystem =
  logger :: "Logger option"
  system :: "'w System"

definition NewDebugSystem :: "'w System \<Rightarrow> Logger option \<Rightarrow> 'w DebugSystem" where
  "NewDebugSystem sys lg = \<lparr>DebugSystem.logger = lg, system = sys\<rparr>"

definition DebugSystem_Chtimes ::
  "'w DebugSystem \<Rightarrow> AbsPath \<Rightarrow> Time \<Rightarrow> Time \<Rightarrow> (error option, 'w) prog" where
  "DebugSystem_Chtimes s name atime mtime =
     bind (Chtimes (system s) name atime mtime) (\<lambda>err.
     bind (InfoOrError (DebugSystem.logger s) ''Chtimes'' err
             [Stringer ''name'' (AbsPath_String name),
              slog_Time ''atime'' atime,
              slog_Time ''mtime'' mtime]) (\<lambda>_.
     return err))"

definition DebugSystem_Chmod ::
  "'w DebugSystem \<Rightarrow> AbsPath \<Rightarrow> FileMode \<Rightarrow> (error option, 'w) prog" where
  "DebugSystem_Chmod s name mode =
     bind (Chmod (system s) name mode) (\<lambda>err.
     bind (InfoOrError (DebugSystem.logger s) ''Chmod'' err
             [Stringer ''name'' (AbsPath_String name),
              slog_Int ''mode'' (uint mode)]) (\<lambda>_.
     return err))"

definition DebugSystem_Glob ::
  "'w DebugSystem \<Rightarrow> string \<Rightarrow> (string list \<times> error option, 'w) prog" where
  "DebugSystem_Glob s name =
     bind (Glob (system s) name) (\<lambda>(matches, err).
     bind (InfoOrError (DebugSystem.logger s) ''Glob'' err
             [slog_String ''name'' name,
              slog_Any ''matches'' (AnyStrings matches)]) (\<lambda>_.
     return (matches, err)))"

definition DebugSystem_Link ::
  "'w DebugSystem \<Rightarrow> AbsPath \<Rightarrow> AbsPath \<Rightarrow> (error option, 'w) prog" where
  "DebugSystem_Link s oldpath newpath =
     bind (Link (system s) oldpath newpath) (\<lambda>err.
     bind (InfoOrError (DebugSystem.logger s) ''Link'' err
             [Stringer ''oldpath'' (AbsPath_String oldpath),
              Stringer ''newpath'' (AbsPath_String newpath)]) (\<lambda>_.
     return err))"

definition DebugSystem_Lstat ::
  "'w DebugSystem \<Rightarrow> AbsPath \<Rightarrow> (handle \<times> error option, 'w) prog" where
  "DebugSystem_Lstat s name =
     bind (Lstat (system s) name) (\<lambda>(fileInfo, err).
     bind (InfoOrError (DebugSystem.logger s) ''Lstat'' err
             [Stringer ''name'' (AbsPath_String name)]) (\<lambda>_.
     return (fileInfo, err)))"

definition DebugSystem_Mkdir ::
  "'w DebugSystem \<Rightarrow> AbsPath \<Rightarrow> FileMode \<Rightarrow> (error option, 'w) prog" where
  "DebugSystem_Mkdir s name perm =
     bind (Mkdir (system s) name perm) (\<lambda>err.
     bind (InfoOrError (DebugSystem.logger s) ''Mkdir'' err
             [Stringer ''name'' (AbsPath_String name),
              slog_Int ''perm'' (uint perm)]) (\<lambda>_.
     return err))"

definition DebugSystem_RawPath ::
  "'w DebugSystem \<Rightarrow> AbsPath \<Rightarrow> (AbsPath \<times> error option, 'w) prog" where
  "DebugSystem_RawPath s path = RawPath (system s) path"

definition DebugSystem_ReadDir ::
  "'w DebugSystem \<Rightarrow> AbsPath \<Rightarrow> (handle list \<times> error option, 'w) prog" where
  "DebugSystem_ReadDir s name =
     bind (ReadDir (system s) name) (\<lambda>(dirEntries, err).
     bind (InfoOrError (DebugSystem.logger s) ''ReadDir'' err
             [Stringer ''name'' (AbsPath_String name)]) (\<lambda>_.
     return (dirEntries, err)))"

text \<open>
  \<^verbatim>\<open>ReadFile\<close> and \<^verbatim>\<open>Readlink\<close> call the methods of \<^verbatim>\<open>s.logger\<close> themselves,
  not through \<^verbatim>\<open>InfoOrError\<close>.
\<close>

definition DebugSystem_ReadFile ::
  "'w DebugSystem \<Rightarrow> AbsPath \<Rightarrow> (bytes \<times> error option, 'w) prog" where
  "DebugSystem_ReadFile s name =
     bind (ReadFile (system s) name) (\<lambda>(data, err).
     bind (if err \<noteq> None
           then Logger_Error (DebugSystem.logger s) ''ReadFile'' [slog_Any ''err'' (AnyError err)]
           else Logger_Info (DebugSystem.logger s) ''ReadFile''
                  [slog_String ''data'' (Output data err),
                   slog_Int ''size'' (int (length data))]) (\<lambda>_.
     return (data, err)))"

definition DebugSystem_Readlink ::
  "'w DebugSystem \<Rightarrow> AbsPath \<Rightarrow> (string \<times> error option, 'w) prog" where
  "DebugSystem_Readlink s name =
     bind (Readlink (system s) name) (\<lambda>(linkname, err).
     bind (if err \<noteq> None
           then Logger_Error (DebugSystem.logger s) ''ReadLink'' [slog_Any ''err'' (AnyError err)]
           else Logger_Info (DebugSystem.logger s) ''ReadLink''
                  [slog_String ''linkname'' linkname]) (\<lambda>_.
     return (linkname, err)))"

definition DebugSystem_Remove :: "'w DebugSystem \<Rightarrow> AbsPath \<Rightarrow> (error option, 'w) prog" where
  "DebugSystem_Remove s name =
     bind (Remove (system s) name) (\<lambda>err.
     bind (InfoOrError (DebugSystem.logger s) ''Remove'' err
             [Stringer ''name'' (AbsPath_String name)]) (\<lambda>_.
     return err))"

definition DebugSystem_RemoveAll :: "'w DebugSystem \<Rightarrow> AbsPath \<Rightarrow> (error option, 'w) prog" where
  "DebugSystem_RemoveAll s name =
     bind (RemoveAll (system s) name) (\<lambda>err.
     bind (InfoOrError (DebugSystem.logger s) ''RemoveAll'' err
             [Stringer ''name'' (AbsPath_String name)]) (\<lambda>_.
     return err))"

definition DebugSystem_Rename ::
  "'w DebugSystem \<Rightarrow> AbsPath \<Rightarrow> AbsPath \<Rightarrow> (error option, 'w) prog" where
  "DebugSystem_Rename s oldpath newpath =
     bind (Rename (system s) oldpath newpath) (\<lambda>err.
     bind (InfoOrError (DebugSystem.logger s) ''RemoveAll'' err
             [Stringer ''oldpath'' (AbsPath_String oldpath),
              Stringer ''newpath'' (AbsPath_String newpath)]) (\<lambda>_.
     return err))"

text \<open>\<^verbatim>\<open>RunCmd\<close> and \<^verbatim>\<open>RunScript\<close> log to the default logger, not to \<^verbatim>\<open>s.logger\<close>.\<close>

definition DebugSystem_RunCmd :: "'w DebugSystem \<Rightarrow> Cmd \<Rightarrow> (error option, 'w) prog" where
  "DebugSystem_RunCmd s cmd =
     bind time_Now (\<lambda>start.
     bind (RunCmd (system s) cmd) (\<lambda>err.
     bind (time_Since start) (\<lambda>since.
     bind (let attrs = [slog_Any ''cmd'' (AnyCmd cmd), slog_Duration ''duration'' since]
                         @ AppendExitErrorAttrs [] err
           in if err \<noteq> None then slog_Error ''RunCmd'' attrs
              else slog_Info ''RunCmd'' attrs) (\<lambda>_.
     return err))))"

definition DebugSystem_RunScript ::
  "'w DebugSystem \<Rightarrow> RelPath \<Rightarrow> AbsPath \<Rightarrow> bytes \<Rightarrow> RunScriptOptions \<Rightarrow> (error option, 'w) prog" where
  "DebugSystem_RunScript s scriptname dir data options =
     bind (RunScript (system s) scriptname dir data options) (\<lambda>err.
     bind (let attrs = [Stringer ''scriptname'' (RelPath_String scriptname),
                        Stringer ''dir'' (AbsPath_String dir),
                        slog_String ''data'' (Output data err),
                        slog_Any ''interpreter'' (AnyInterpreter (Interpreter options)),
                        slog_String ''condition'' (Condition options)]
                         @ AppendExitErrorAttrs [] err
           in if err \<noteq> None then slog_Error ''RunScript'' attrs
              else slog_Info ''RunScript'' attrs) (\<lambda>_.
     return err))"

definition DebugSystem_Stat ::
  "'w DebugSystem \<Rightarrow> AbsPath \<Rightarrow> (handle \<times> error option, 'w) prog" where
  "DebugSystem_Stat s name =
     bind (Stat (system s) name) (\<lambda>(fileInfo, err).
     bind (InfoOrError (DebugSystem.logger s) ''Stat'' err
             [Stringer ''name'' (AbsPath_String name)]) (\<lambda>_.
     return (fileInfo, err)))"

definition DebugSystem_UnderlyingFS :: "'w DebugSystem \<Rightarrow> (handle, 'w) prog" where
  "DebugSystem_UnderlyingFS s = UnderlyingFS (system s)"

definition DebugSystem_WriteFile ::
  "'w DebugSystem \<Rightarrow> AbsPath \<Rightarrow> bytes \<Rightarrow> FileMode \<Rightarrow> (error option, 'w) prog" where
  "DebugSystem_WriteFile s name data perm =
     bind (WriteFile (system s) name data perm) (\<lambda>err.
     bind (InfoOrError (DebugSystem.logger s) ''WriteFile'' err
             [Stringer ''name'' (AbsPath_String name),
              slog_String ''data'' (FirstFewBytes data),
              slog_Int ''perm'' (uint perm),
              slog_Int ''size'' (int (length data))]) (\<lambda>_.
     return err))"

definition DebugSystem_WriteSymlink ::
  "'w DebugSystem \<Rightarrow> string \<Rightarrow> AbsPath \<Rightarrow> (error option, 'w) prog" where
  "DebugSystem_WriteSymlink s oldname newname =
     bind (WriteSymlink (system s) oldname newname) (\<lambda>err.
     bind (InfoOrError (DebugSystem.logger s) ''WriteSymlink'' err
             [slog_String ''oldname'' oldname,
              Stringer ''newname'' (AbsPath_String newname)]) (\<lambda>_.
     return err))"

section \<open>The PersistentState interface and its logging decorator\<close>

text \<open>
  The callback of \<^verbatim>\<open>ForEach\<close> is a Go function value: it acts on the state of the
  program, returns an error or nil, and may panic.
\<close>

type_synonym 'w callback = "bytes \<Rightarrow> bytes \<Rightarrow> (error option, 'w) prog"

record 'w PersistentState =
  Close :: "(error option, 'w) prog"
  CopyTo :: "handle \<Rightarrow> (error option, 'w) prog"
  Data :: "(handle \<times> error option, 'w) prog"
  Delete :: "bytes \<Rightarrow> bytes \<Rightarrow> (error option, 'w) prog"
  DeleteBucket :: "bytes \<Rightarrow> (error option, 'w) prog"
  ForEach :: "bytes \<Rightarrow> 'w callback \<Rightarrow> (error option, 'w) prog"
  Get :: "bytes \<Rightarrow> bytes \<Rightarrow> (bytes \<times> error option, 'w) prog"
  Set :: "bytes \<Rightarrow> bytes \<Rightarrow> bytes \<Rightarrow> (error option, 'w) prog"

record 'w DebugPersistentState =
  logger :: "Logger option"
  persistentState :: "'w PersistentState"

definition NewDebugPersistentState ::
  "'w PersistentState \<Rightarrow> Logger option \<Rightarrow> 'w DebugPersistentState" where
  "NewDebugPersistentState ps lg = \<lparr>DebugPersistentState.logger = lg, persistentState = ps\<rparr>"

definition DebugPersistentState_Close :: "'w DebugPersistentState \<Rightarrow> (error option, 'w) prog" where
  "DebugPersistentState_Close s =
     bind (Close (persistentState s)) (\<lambda>err.
     bind (InfoOrError (DebugPersistentState.logger s) ''Close'' err []) (\<lambda>_.
     return err))"

definition DebugPersistentState_CopyTo ::
  "'w DebugPersistentState \<Rightarrow> handle \<Rightarrow> (error option, 'w) prog" where
  "DebugPersistentState_CopyTo s p =
     bind (CopyTo (persistentState s) p) (\<lambda>err.
     bind (InfoOrError (DebugPersistentState.logger s) ''CopyTo'' err []) (\<lambda>_.
     return err))"

definition DebugPersistentState_Data ::
  "'w DebugPersistentState \<Rightarrow> (handle \<times> error option, 'w) prog" where
  "DebugPersistentState_Data s =
     bind (Data (persistentState s)) (\<lambda>(data, err).
     bind (InfoOrError (DebugPersistentState.logger s) ''Data'' err
             [slog_Any ''data'' (AnyHandle data)]) (\<lambda>_.
     return (data, err)))"

definition DebugPersistentState_Delete ::
  "'w DebugPersistentState \<Rightarrow> bytes \<Rightarrow> bytes \<Rightarrow> (error option, 'w) prog" where
  "DebugPersistentState_Delete s bucket key =
     bind (Delete (persistentState s) bucket key) (\<lambda>err.
     bind (InfoOrError (DebugPersistentState.logger s) ''Delete'' err
             [slog_Any ''bucket'' (AnyBytes bucket),
              slog_Any ''key'' (AnyBytes key)]) (\<lambda>_.
     return err))"

definition DebugPersistentState_DeleteBucket ::
  "'w DebugPersistentState \<Rightarrow> bytes \<Rightarrow> (error option, 'w) prog" where
  "DebugPersistentState_DeleteBucket s bucket =
     bind (DeleteBucket (persistentState s) bucket) (\<lambda>err.
     bind (InfoOrError (DebugPersistentState.logger s) ''DeleteBucket'' err
             [slog_Any ''bucket'' (AnyBytes bucket)]) (\<lambda>_.
     return err))"

text \<open>
  The function that \<^verbatim>\<open>ForEach\<close> hands to the wrapped implementation in place of
  the caller's \<open>fn\<close>.
\<close>

definition ForEach_callback :: "Logger option \<Rightarrow> bytes \<Rightarrow> 'w callback \<Rightarrow> 'w callback" where
  "ForEach_callback lg bucket fn k v =
     bind (fn k v) (\<lambda>err.
     bind (InfoOrError lg ''ForEach'' err
             [slog_Any ''bucket'' (AnyBytes bucket),
              slog_Any ''key'' (AnyBytes k),
              slog_Any ''value'' (AnyBytes v)]) (\<lambda>_.
     return err))"

definition DebugPersistentState_ForEach ::
  "'w DebugPersistentState \<Rightarrow> bytes \<Rightarrow> 'w callback \<Rightarrow> (error option, 'w) prog" where
  "DebugPersistentState_ForEach s bucket fn =
     bind (ForEach (persistentState s) bucket
             (ForEach_callback (DebugPersistentState.logger s) bucket fn)) (\<lambda>err.
     bind (InfoOrError (DebugPersistentState.logger s) ''ForEach'' err
             [slog_Any ''bucket'' (AnyBytes bucket)]) (\<lambda>_.
     return err))"

definition DebugPersistentState_Get ::
  "'w DebugPersistentState \<Rightarrow> bytes \<Rightarrow> bytes \<Rightarrow> (bytes \<times> error option, 'w) prog" where
  "DebugPersistentState_Get s bucket key =
     bind (Get (persistentState s) bucket key) (\<lambda>(val, err).
     bind (InfoOrError (DebugPersistentState.logger s) ''Get'' err
             [slog_Any ''bucket'' (AnyBytes bucket),
              slog_Any ''key'' (AnyBytes key),
              slog_Any ''value'' (AnyBytes val)]) (\<lambda>_.
     return (val, err)))"

definition DebugPersistentState_Set ::
  "'w DebugPersistentState \<Rightarrow> bytes \<Rightarrow> bytes \<Rightarrow> bytes \<Rightarrow> (error option, 'w) prog" where
  "DebugPersistentState_Set s bucket key val =
     bind (Set (persistentState s) bucket key val) (\<lambda>err.
     bind (InfoOrError (DebugPersistentState.logger s) ''Set'' err
             [slog_Any ''bucket'' (AnyBytes bucket),
              slog_Any ''key'' (AnyBytes key),
              slog_Any ''value'' (AnyBytes val)]) (\<lambda>_.
     return err))"

subsection \<open>An iterator that halts at the first failure\<close>

text \<open>
  Modelled from the spec: the implementations of \<^verbatim>\<open>PersistentState\<close> that the
  decorator wraps are not among the sources. The spec expects the underlying
  iterator to visit the entries of the bucket in order, to halt when the
  callback returns a failure, and to propagate that failure upward. \<open>visit\<close> is
  such an iterator over the entries it is given.
\<close>

fun visit :: "(bytes \<times> bytes) list \<Rightarrow> 'w callback \<Rightarrow> (error option, 'w) prog" where
  "visit [] fn \<sigma> = (Inr None, \<sigma>)"
| "visit ((k, v) # entries) fn \<sigma> =
     (case fn k v \<sigma> of
        (Inl p, \<sigma>') \<Rightarrow> (Inl p, \<sigma>')
      | (Inr (Some e), \<sigma>') \<Rightarrow> (Inr (Some e), \<sigma>')
      | (Inr None, \<sigma>') \<Rightarrow> visit entries fn \<sigma>')"

section \<open>Mock implementations\<close>

text \<open>
  Inner implementations for the concrete cases. Every method of \<open>mock_System\<close>
  returns the error \<open>err\<close> (with \<open>data\<close> where the method returns bytes or a
  string), and running a command or a script takes the time \<open>elapsed\<close>.
\<close>

definition sleep :: "Duration \<Rightarrow> (unit, 'w) prog" where
  "sleep d \<sigma> = (Inr (), \<sigma>\<lparr>clock := clock \<sigma> + d\<rparr>)"

definition mock_System :: "error option \<Rightarrow> bytes \<Rightarrow> Duration \<Rightarrow> 'w System" where
  "mock_System err data elapsed =
     \<lparr>Chtimes = (\<lambda>_ _ _. return err),
      Chmod = (\<lambda>_ _. return err),
      Glob = (\<lambda>_. return ([], err)),
      Link = (\<lambda>_ _. return err),
      Lstat = (\<lambda>_. return (Handle 0, err)),
      Mkdir = (\<lambda>_ _. return err),
      RawPath = (\<lambda>path. return (path, err)),
      ReadDir = (\<lambda>_. return ([], err)),
      ReadFile = (\<lambda>_. return (data, err)),
      Readlink = (\<lambda>_. return (data, err)),
      Remove = (\<lambda>_. return err),
      RemoveAll = (\<lambda>_. return err),
      Rename = (\<lambda>_ _. return err),
      RunCmd = (\<lambda>_. bind (sleep elapsed) (\<lambda>_. return err)),
      RunScript = (\<lambda>_ _ _ _. bind (sleep elapsed) (\<lambda>_. return err)),
      Stat = (\<lambda>_. return (Handle 0, err)),
      UnderlyingFS = return (Handle 0),
      WriteFile = (\<lambda>_ _ _. return err),
      WriteSymlink = (\<lambda>_ _. return err)\<rparr>"

text \<open>
  A store whose \<^verbatim>\<open>ForEach\<close> visits \<open>entries\<close> in order, whatever the bucket, and
  halts at the first failure of the callback.
\<close>

definition mock_PersistentState :: "(bytes \<times> bytes) list \<Rightarrow> 'w PersistentState" where
  "mock_PersistentState entries =
     \<lparr>Close = return None,
      CopyTo = (\<lambda>_. return None),
      Data = return (Handle 0, None),
      Delete = (\<lambda>_ _. return None),
      DeleteBucket = (\<lambda>_. return None),
      ForEach = (\<lambda>_. visit entries),
      Get = (\<lambda>_ _. return ([], None)),
      Set = (\<lambda>_ _ _. return None)\<rparr>"

text \<open>
  A callback that notes in the world every key it is called with, and fails on
  the key \<open>bad\<close>.
\<close>

definition fail_on :: "bytes \<Rightarrow> (bytes list) callback" where
  "fail_on bad k v \<sigma> =
     (Inr (if k = bad then Some (OtherError ''callback failed'') else None),
      \<sigma>\<lparr>world := world \<sigma> @ [k]\<rparr>)"

definition initial :: "'w \<Rightarrow> 'w state" where
  "initial w = \<lparr>emitted = [], clock = 0, world = w\<rparr>"

section \<open>Truncation\<close>

lemma FirstFewBytes_short: "length data \<le> 64 \<Longrightarrow> FirstFewBytes data = data"
  by (simp add: FirstFewBytes_def few_def)

lemma FirstFewBytes_long:
  "64 < length data \<Longrightarrow> FirstFewBytes data = take 64 data @ ''...''"
  by (simp add: FirstFewBytes_def few_def)

lemma length_FirstFewBytes_long: "64 < length data \<Longrightarrow> length (FirstFewBytes data) = 67"
  by (simp add: FirstFewBytes_long)

text \<open>
  C2. For every byte sequence \<open>d\<close>: with a nil error, \<open>Output\<close> returns \<open>d\<close> unchanged
  when \<open>d\<close> has at most 64 bytes, and the first 64 bytes of \<open>d\<close> followed by a
  3-byte marker (67 bytes in all) when \<open>d\<close> is longer; with a non-nil error it
  returns \<open>d\<close> in full, whatever its length.
\<close>

theorem Output_truncation:
  "(length d \<le> 64 \<longrightarrow> Output d None = d) \<and>
   (64 < length d \<longrightarrow>
      Output d None = take 64 d @ ''...'' \<and> length (Output d None) = 67) \<and>
   Output d (Some e) = d"
proof (intro conjI impI)
  assume "length d \<le> 64"
  then show "Output d None = d"
    by (simp add: Output_def FirstFewBytes_short)
next
  assume "64 < length d"
  then show "Output d None = take 64 d @ ''...''"
    by (simp add: Output_def FirstFewBytes_long)
next
  assume "64 < length d"
  then show "length (Output d None) = 67"
    by (simp add: Output_def length_FirstFewBytes_long)
next
  show "Output d (Some e) = d"
    by (simp add: Output_def)
qed

theorem Output_truncation_witness:
  "length ''abc'' \<le> 64 \<and> Output ''abc'' None = ''abc'' \<and>
   64 < length (replicate 100 (CHR ''a'')) \<and>
   length (Output (replicate 100 (CHR ''a'')) None) = 67 \<and>
   Output (replicate 100 (CHR ''a'')) (Some (OtherError ''failed'')) = replicate 100 (CHR ''a'')"
  using Output_truncation [of "''abc''" "OtherError ''failed''"]
    Output_truncation [of "replicate 100 (CHR ''a'')" "OtherError ''failed''"]
  by simp

section \<open>Pass-through of results\<close>

lemma InfoOrError_nil: "InfoOrError None m err args \<sigma> = (Inr (), \<sigma>)"
  by (simp add: InfoOrError_def return_def)

lemma Logger_log_Some:
  "Logger_log (Some l) lvl m args \<sigma> =
     (Inr (), \<sigma>\<lparr>emitted := emitted \<sigma> @ [(l, \<lparr>level = lvl, message = m, attributes = args\<rparr>)]\<rparr>)"
  by (simp add: Logger_log_def)

lemma InfoOrError_Some:
  "InfoOrError (Some l) m err args \<sigma> =
     (Inr (), \<sigma>\<lparr>emitted := emitted \<sigma> @
        [(l, \<lparr>level = (if err \<noteq> None then LevelError else LevelInfo), message = m,
              attributes = (if err \<noteq> None then [(''err'', AnyValue (AnyError err))] else []) @ args\<rparr>)]\<rparr>)"
  by (simp add: InfoOrError_def Logger_Error_def Logger_Info_def Logger_log_Some slog_Any_def)

lemma InfoOrError_returns: "fst (InfoOrError lg m err args \<sigma>) = Inr ()"
  by (cases lg) (simp_all add: InfoOrError_nil InfoOrError_Some)

lemma fst_bind_log:
  assumes "\<And>x \<sigma>'. fst (lg x \<sigma>') = Inr ()"
  shows "fst (bind f (\<lambda>x. bind (lg x) (\<lambda>_. return x)) \<sigma>) = fst (f \<sigma>)"
proof (cases "f \<sigma>")
  case (Pair r \<sigma>')
  show ?thesis
  proof (cases r)
    case (Inl p)
    with Pair show ?thesis by (simp add: bind_def)
  next
    case (Inr x)
    obtain u \<sigma>'' where l: "lg x \<sigma>' = (u, \<sigma>'')" by (cases "lg x \<sigma>'")
    with assms [of x \<sigma>'] have "u = Inr ()" by simp
    with Pair Inr l show ?thesis by (simp add: bind_def return_def)
  qed
qed

lemma DebugSystem_Chtimes_result:
  "fst (DebugSystem_Chtimes (NewDebugSystem sys lg) name atime mtime \<sigma>) = fst (Chtimes sys name atime mtime \<sigma>)"
  unfolding DebugSystem_Chtimes_def NewDebugSystem_def
  by (simp add: fst_bind_log InfoOrError_returns)

lemma DebugSystem_Chmod_result:
  "fst (DebugSystem_Chmod (NewDebugSystem sys lg) name mode \<sigma>) = fst (Chmod sys name mode \<sigma>)"
  unfolding DebugSystem_Chmod_def NewDebugSystem_def
  by (simp add: fst_bind_log InfoOrError_returns)

lemma DebugSystem_Glob_result:
  "fst (DebugSystem_Glob (NewDebugSystem sys lg) name \<sigma>) = fst (Glob sys name \<sigma>)"
  unfolding DebugSystem_Glob_def NewDebugSystem_def
  by (simp add: fst_bind_log InfoOrError_returns case_prod_unfold)

lemma DebugSystem_Link_result:
  "fst (DebugSystem_Link (NewDebugSystem sys lg) oldpath newpath \<sigma>) = fst (Link sys oldpath newpath \<sigma>)"
  unfolding DebugSystem_Link_def NewDebugSystem_def
  by (simp add: fst_bind_log InfoOrError_returns)

lemma DebugSystem_Lstat_result:
  "fst (DebugSystem_Lstat (NewDebugSystem sys lg) name \<sigma>) = fst (Lstat sys name \<sigma>)"
  unfolding DebugSystem_Lstat_def NewDebugSystem_def
  by (simp add: fst_bind_log InfoOrError_returns case_prod_unfold)

lemma DebugSystem_Mkdir_result:
  "fst (DebugSystem_Mkdir (NewDebugSystem sys lg) name perm \<sigma>) = fst (Mkdir sys name perm \<sigma>)"
  unfolding DebugSystem_Mkdir_def NewDebugSystem_def
  by (simp add: fst_bind_log InfoOrError_returns)

lemma DebugSystem_ReadDir_result:
  "fst (DebugSystem_ReadDir (NewDebugSystem sys lg) name \<sigma>) = fst (ReadDir sys name \<sigma>)"
  unfolding DebugSystem_ReadDir_def NewDebugSystem_def
  by (simp add: fst_bind_log InfoOrError_returns case_prod_unfold)

lemma DebugSystem_Remove_result:
  "fst (DebugSystem_Remove (NewDebugSystem sys lg) name \<sigma>) = fst (Remove sys name \<sigma>)"
  unfolding DebugSystem_Remove_def NewDebugSystem_def
  by (simp add: fst_bind_log InfoOrError_returns)

lemma DebugSystem_RemoveAll_result:
  "fst (DebugSystem_RemoveAll (NewDebugSystem sys lg) name \<sigma>) = fst (RemoveAll sys name \<sigma>)"
  unfolding DebugSystem_RemoveAll_def NewDebugSystem_def
  by (simp add: fst_bind_log InfoOrError_returns)

lemma DebugSystem_Rename_result:
  "fst (DebugSystem_Rename (NewDebugSystem sys lg) oldpath newpath \<sigma>) = fst (Rename sys oldpath newpath \<sigma>)"
  unfolding DebugSystem_Rename_def NewDebugSystem_def
  by (simp add: fst_bind_log InfoOrError_returns)

lemma DebugSystem_Stat_result:
  "fst (DebugSystem_Stat (NewDebugSystem sys lg) name \<sigma>) = fst (Stat sys name \<sigma>)"
  unfolding DebugSystem_Stat_def NewDebugSystem_def
  by (simp add: fst_bind_log InfoOrError_returns case_prod_unfold)

lemma DebugSystem_WriteFile_result:
  "fst (DebugSystem_WriteFile (NewDebugSystem sys lg) name data perm \<sigma>) = fst (WriteFile sys name data perm \<sigma>)"
  unfolding DebugSystem_WriteFile_def NewDebugSystem_def
  by (simp add: fst_bind_log InfoOrError_returns)

lemma DebugSystem_WriteSymlink_result:
  "fst (DebugSystem_WriteSymlink (NewDebugSystem sys lg) oldname newname \<sigma>) = fst (WriteSymlink sys oldname newname \<sigma>)"
  unfolding DebugSystem_WriteSymlink_def NewDebugSystem_def
  by (simp add: fst_bind_log InfoOrError_returns)

lemma DebugPersistentState_Close_result:
  "fst (DebugPersistentState_Close (NewDebugPersistentState ps lg) \<sigma>) = fst (Close ps \<sigma>)"
  unfolding DebugPersistentState_Close_def NewDebugPersistentState_def
  by (simp add: fst_bind_log InfoOrError_returns)

lemma DebugPersistentState_CopyTo_result:
  "fst (DebugPersistentState_CopyTo (NewDebugPersistentState ps lg) p \<sigma>) = fst (CopyTo ps p \<sigma>)"
  unfolding DebugPersistentState_CopyTo_def NewDebugPersistentState_def
  by (simp add: fst_bind_log InfoOrError_returns)

lemma DebugPersistentState_Data_result:
  "fst (DebugPersistentState_Data (NewDebugPersistentState ps lg) \<sigma>) = fst (Data ps \<sigma>)"
  unfolding DebugPersistentState_Data_def NewDebugPersistentState_def
  by (simp add: fst_bind_log InfoOrError_returns case_prod_unfold)

lemma DebugPersistentState_Delete_result:
  "fst (DebugPersistentState_Delete (NewDebugPersistentState ps lg) bucket key \<sigma>) = fst (Delete ps bucket key \<sigma>)"
  unfolding DebugPersistentState_Delete_def NewDebugPersistentState_def
  by (simp add: fst_bind_log InfoOrError_returns)

lemma DebugPersistentState_DeleteBucket_result:
  "fst (DebugPersistentState_DeleteBucket (NewDebugPersistentState ps lg) bucket \<sigma>) = fst (DeleteBucket ps bucket \<sigma>)"
  unfolding DebugPersistentState_DeleteBucket_def NewDebugPersistentState_def
  by (simp add: fst_bind_log InfoOrError_returns)

lemma DebugPersistentState_Get_result:
  "fst (DebugPersistentState_Get (NewDebugPersistentState ps lg) bucket key \<sigma>) = fst (Get ps bucket key \<sigma>)"
  unfolding DebugPersistentState_Get_def NewDebugPersistentState_def
  by (simp add: fst_bind_log InfoOrError_returns case_prod_unfold)

lemma DebugPersistentState_Set_result:
  "fst (DebugPersistentState_Set (NewDebugPersistentState ps lg) bucket key val \<sigma>) = fst (Set ps bucket key val \<sigma>)"
  unfolding DebugPersistentState_Set_def NewDebugPersistentState_def
  by (simp add: fst_bind_log InfoOrError_returns)

lemma Logger_log_returns: "fst (Logger_log (Some l) lvl m args \<sigma>) = Inr ()"
  by (simp add: Logger_log_Some)

lemma DebugSystem_RawPath_result:
  "fst (DebugSystem_RawPath (NewDebugSystem sys lg) path \<sigma>) = fst (RawPath sys path \<sigma>)"
  by (simp add: DebugSystem_RawPath_def NewDebugSystem_def)

lemma DebugSystem_UnderlyingFS_result:
  "fst (DebugSystem_UnderlyingFS (NewDebugSystem sys lg) \<sigma>) = fst (UnderlyingFS sys \<sigma>)"
  by (simp add: DebugSystem_UnderlyingFS_def NewDebugSystem_def)

lemma DebugSystem_ReadFile_result:
  "fst (DebugSystem_ReadFile (NewDebugSystem sys (Some l)) name \<sigma>) = fst (ReadFile sys name \<sigma>)"
  unfolding DebugSystem_ReadFile_def NewDebugSystem_def
  by (simp add: fst_bind_log Logger_Error_def Logger_Info_def Logger_log_returns case_prod_unfold)

lemma DebugSystem_Readlink_result:
  "fst (DebugSystem_Readlink (NewDebugSystem sys (Some l)) name \<sigma>) = fst (Readlink sys name \<sigma>)"
  unfolding DebugSystem_Readlink_def NewDebugSystem_def
  by (simp add: fst_bind_log Logger_Error_def Logger_Info_def Logger_log_returns case_prod_unfold)

lemma slog_returns:
  "fst (slog_Error m args \<sigma>) = Inr ()" "fst (slog_Info m args \<sigma>) = Inr ()"
  by (simp_all add: slog_Error_def slog_Info_def Logger_Error_def Logger_Info_def Logger_log_returns)

lemma DebugSystem_RunScript_result:
  "fst (DebugSystem_RunScript (NewDebugSystem sys lg) scriptname dir data options \<sigma>) =
   fst (RunScript sys scriptname dir data options \<sigma>)"
  unfolding DebugSystem_RunScript_def NewDebugSystem_def
  by (simp add: fst_bind_log slog_returns Let_def)

lemma DebugSystem_RunCmd_result:
  "fst (DebugSystem_RunCmd (NewDebugSystem sys lg) cmd \<sigma>) = fst (RunCmd sys cmd \<sigma>)"
proof -
  have "fst (bind (RunCmd sys cmd) (\<lambda>err.
          bind (bind (time_Since start) (\<lambda>since.
                  let attrs = [slog_Any ''cmd'' (AnyCmd cmd), slog_Duration ''duration'' since]
                                @ AppendExitErrorAttrs [] err
                  in if err \<noteq> None then slog_Error ''RunCmd'' attrs
                     else slog_Info ''RunCmd'' attrs)) (\<lambda>_. return err)) \<sigma>) =
        fst (RunCmd sys cmd \<sigma>)" for start
    by (rule fst_bind_log) (simp add: bind_def time_Since_def slog_returns Let_def)
  moreover have "bind (time_Since start) (\<lambda>since. bind (g since) h) = bind (bind (time_Since start) g) h"
    for start and g :: "Duration \<Rightarrow> (unit, 'a) prog" and h :: "unit \<Rightarrow> (error option, 'a) prog"
    by (rule ext) (simp add: bind_def time_Since_def)
  ultimately show ?thesis
    unfolding DebugSystem_RunCmd_def NewDebugSystem_def
    by (simp add: bind_def [of time_Now] time_Now_def)
qed

lemma DebugPersistentState_ForEach_result:
  "fst (DebugPersistentState_ForEach (NewDebugPersistentState ps lg) bucket fn \<sigma>) =
   fst (ForEach ps bucket (ForEach_callback lg bucket fn) \<sigma>)"
  unfolding DebugPersistentState_ForEach_def NewDebugPersistentState_def
  by (simp add: fst_bind_log InfoOrError_returns)


lemma ForEach_callback_result:
  "fst (ForEach_callback lg bucket fn k v \<sigma>) = fst (fn k v \<sigma>)"
  unfolding ForEach_callback_def
  by (simp add: fst_bind_log InfoOrError_returns)

text \<open>
  Where the results do pass through. Every method that logs through
  \<^verbatim>\<open>InfoOrError\<close> or to the default logger, or does not log at all, returns
  exactly what the inner implementation returned (the same value and error, or
  the same panic), whatever the logger, nil or not. \<^verbatim>\<open>ReadFile\<close> and \<^verbatim>\<open>Readlink\<close>
  do so when the logger is not nil. \<^verbatim>\<open>ForEach\<close> returns the result of the inner
  iteration over its wrapped callback, and the wrapped callback returns to the
  iterator exactly what the caller's callback returned.
\<close>

lemma decorator_returns_inner_result:
  "fst (DebugSystem_Chtimes (NewDebugSystem sys lg) name atime mtime \<sigma>) = fst (Chtimes sys name atime mtime \<sigma>) \<and>
   fst (DebugSystem_Chmod (NewDebugSystem sys lg) name mode \<sigma>) = fst (Chmod sys name mode \<sigma>) \<and>
   fst (DebugSystem_Glob (NewDebugSystem sys lg) pattern \<sigma>) = fst (Glob sys pattern \<sigma>) \<and>
   fst (DebugSystem_Link (NewDebugSystem sys lg) oldpath newpath \<sigma>) = fst (Link sys oldpath newpath \<sigma>) \<and>
   fst (DebugSystem_Lstat (NewDebugSystem sys lg) name \<sigma>) = fst (Lstat sys name \<sigma>) \<and>
   fst (DebugSystem_Mkdir (NewDebugSystem sys lg) name perm \<sigma>) = fst (Mkdir sys name perm \<sigma>) \<and>
   fst (DebugSystem_RawPath (NewDebugSystem sys lg) name \<sigma>) = fst (RawPath sys name \<sigma>) \<and>
   fst (DebugSystem_ReadDir (NewDebugSystem sys lg) name \<sigma>) = fst (ReadDir sys name \<sigma>) \<and>
   fst (DebugSystem_ReadFile (NewDebugSystem sys (Some l)) name \<sigma>) = fst (ReadFile sys name \<sigma>) \<and>
   fst (DebugSystem_Readlink (NewDebugSystem sys (Some l)) name \<sigma>) = fst (Readlink sys name \<sigma>) \<and>
   fst (DebugSystem_Remove (NewDebugSystem sys lg) name \<sigma>) = fst (Remove sys name \<sigma>) \<and>
   fst (DebugSystem_RemoveAll (NewDebugSystem sys lg) name \<sigma>) = fst (RemoveAll sys name \<sigma>) \<and>
   fst (DebugSystem_Rename (NewDebugSystem sys lg) oldpath newpath \<sigma>) = fst (Rename sys oldpath newpath \<sigma>) \<and>
   fst (DebugSystem_RunCmd (NewDebugSystem sys lg) cmd \<sigma>) = fst (RunCmd sys cmd \<sigma>) \<and>
   fst (DebugSystem_RunScript (NewDebugSystem sys lg) scriptname dir data options \<sigma>) = fst (RunScript sys scriptname dir data options \<sigma>) \<and>
   fst (DebugSystem_Stat (NewDebugSystem sys lg) name \<sigma>) = fst (Stat sys name \<sigma>) \<and>
   fst (DebugSystem_UnderlyingFS (NewDebugSystem sys lg) \<sigma>) = fst (UnderlyingFS sys \<sigma>) \<and>
   fst (DebugSystem_WriteFile (NewDebugSystem sys lg) name data perm \<sigma>) = fst (WriteFile sys name data perm \<sigma>) \<and>
   fst (DebugSystem_WriteSymlink (NewDebugSystem sys lg) oldname newname \<sigma>) = fst (WriteSymlink sys oldname newname \<sigma>) \<and>
   fst (DebugPersistentState_Close (NewDebugPersistentState ps lg) \<sigma>) = fst (Close ps \<sigma>) \<and>
   fst (DebugPersistentState_CopyTo (NewDebugPersistentState ps lg) p \<sigma>) = fst (CopyTo ps p \<sigma>) \<and>
   fst (DebugPersistentState_Data (NewDebugPersistentState ps lg) \<sigma>) = fst (Data ps \<sigma>) \<and>
   fst (DebugPersistentState_Delete (NewDebugPersistentState ps lg) bucket key \<sigma>) = fst (Delete ps bucket key \<sigma>) \<and>
   fst (DebugPersistentState_DeleteBucket (NewDebugPersistentState ps lg) bucket \<sigma>) = fst (DeleteBucket ps bucket \<sigma>) \<and>
   fst (DebugPersistentState_ForEach (NewDebugPersistentState ps lg) bucket fn \<sigma>) =
     fst (ForEach ps bucket (ForEach_callback lg bucket fn) \<sigma>) \<and>
   fst (ForEach_callback lg bucket fn k v \<sigma>) = fst (fn k v \<sigma>) \<and>
   fst (DebugPersistentState_Get (NewDebugPersistentState ps lg) bucket key \<sigma>) = fst (Get ps bucket key \<sigma>) \<and>
   fst (DebugPersistentState_Set (NewDebugPersistentState ps lg) bucket key val \<sigma>) = fst (Set ps bucket key val \<sigma>)"
  by (intro conjI)
    (rule DebugSystem_Chtimes_result DebugSystem_Chmod_result DebugSystem_Glob_result DebugSystem_Link_result DebugSystem_Lstat_result DebugSystem_Mkdir_result DebugSystem_RawPath_result DebugSystem_ReadDir_result DebugSystem_ReadFile_result DebugSystem_Readlink_result DebugSystem_Remove_result DebugSystem_RemoveAll_result DebugSystem_Rename_result DebugSystem_RunCmd_result DebugSystem_RunScript_result DebugSystem_Stat_result DebugSystem_UnderlyingFS_result DebugSystem_WriteFile_result DebugSystem_WriteSymlink_result DebugPersistentState_Close_result DebugPersistentState_CopyTo_result DebugPersistentState_Data_result DebugPersistentState_Delete_result DebugPersistentState_DeleteBucket_result DebugPersistentState_ForEach_result ForEach_callback_result DebugPersistentState_Get_result DebugPersistentState_Set_result)+

section \<open>A decorator without a logger\<close>

lemma bind_return_left: "bind (return x) g = g x"
  by (rule ext) (simp add: bind_def return_def)

lemma bind_return_right: "bind f return = f"
  by (rule ext) (simp add: bind_def return_def split: prod.splits sum.splits)

lemma InfoOrError_nil_return: "InfoOrError None m err args = return ()"
  by (rule ext) (simp add: InfoOrError_def)

lemma ForEach_callback_nil: "ForEach_callback None bucket fn = fn"
  by (intro ext) (simp add: ForEach_callback_def InfoOrError_nil_return bind_return_left bind_return_right)

lemmas nil_logger_simps =
  NewDebugPersistentState_def InfoOrError_nil_return bind_return_left bind_return_right
  case_prod_unfold

text \<open>
  C10. Whatever the message, the error and the attributes, \<^verbatim>\<open>InfoOrError\<close> with a
  nil logger hands no record to any logger and returns normally: it does not
  reach the logger's methods, which would panic. So every operation of a
  \<^verbatim>\<open>DebugPersistentState\<close> built with a nil logger does what the inner
  implementation does: the same result and the same state, nothing logged.
\<close>

theorem nil_logger_is_silent:
  "InfoOrError None m err args \<sigma> = (Inr (), \<sigma>) \<and>
   DebugPersistentState_Close (NewDebugPersistentState ps None) \<sigma> = Close ps \<sigma> \<and>
   DebugPersistentState_CopyTo (NewDebugPersistentState ps None) p \<sigma> = CopyTo ps p \<sigma> \<and>
   DebugPersistentState_Data (NewDebugPersistentState ps None) \<sigma> = Data ps \<sigma> \<and>
   DebugPersistentState_Delete (NewDebugPersistentState ps None) bucket key \<sigma> =
     Delete ps bucket key \<sigma> \<and>
   DebugPersistentState_DeleteBucket (NewDebugPersistentState ps None) bucket \<sigma> =
     DeleteBucket ps bucket \<sigma> \<and>
   DebugPersistentState_ForEach (NewDebugPersistentState ps None) bucket fn \<sigma> =
     ForEach ps bucket fn \<sigma> \<and>
   DebugPersistentState_Get (NewDebugPersistentState ps None) bucket key \<sigma> = Get ps bucket key \<sigma> \<and>
   DebugPersistentState_Set (NewDebugPersistentState ps None) bucket key val \<sigma> =
     Set ps bucket key val \<sigma>"
proof (intro conjI)
  show "InfoOrError None m err args \<sigma> = (Inr (), \<sigma>)"
    by (simp add: InfoOrError_nil)
  show "DebugPersistentState_Close (NewDebugPersistentState ps None) \<sigma> = Close ps \<sigma>"
    by (simp add: DebugPersistentState_Close_def nil_logger_simps)
  show "DebugPersistentState_CopyTo (NewDebugPersistentState ps None) p \<sigma> = CopyTo ps p \<sigma>"
    by (simp add: DebugPersistentState_CopyTo_def nil_logger_simps)
  show "DebugPersistentState_Data (NewDebugPersistentState ps None) \<sigma> = Data ps \<sigma>"
    by (simp add: DebugPersistentState_Data_def nil_logger_simps)
  show "DebugPersistentState_Delete (NewDebugPersistentState ps None) bucket key \<sigma> =
     Delete ps bucket key \<sigma>"
    by (simp add: DebugPersistentState_Delete_def nil_logger_simps)
  show "DebugPersistentState_DeleteBucket (NewDebugPersistentState ps None) bucket \<sigma> =
     DeleteBucket ps bucket \<sigma>"
    by (simp add: DebugPersistentState_DeleteBucket_def nil_logger_simps)
  show "DebugPersistentState_ForEach (NewDebugPersistentState ps None) bucket fn \<sigma> =
     ForEach ps bucket fn \<sigma>"
    by (simp add: DebugPersistentState_ForEach_def ForEach_callback_nil nil_logger_simps)
  show "DebugPersistentState_Get (NewDebugPersistentState ps None) bucket key \<sigma> = Get ps bucket key \<sigma>"
    by (simp add: DebugPersistentState_Get_def nil_logger_simps)
  show "DebugPersistentState_Set (NewDebugPersistentState ps None) bucket key val \<sigma> =
     Set ps bucket key val \<sigma>"
    by (simp add: DebugPersistentState_Set_def nil_logger_simps)
qed

text \<open>
  \<^verbatim>\<open>ReadFile\<close> and \<^verbatim>\<open>Readlink\<close> of \<^verbatim>\<open>DebugSystem\<close> do not go through
  \<^verbatim>\<open>InfoOrError\<close>: with a nil logger, once the inner call has returned, the call of
  the logger's method panics.
\<close>

lemma DebugSystem_ReadFile_nil_logger:
  "ReadFile sys name \<sigma> = (Inr r, \<sigma>') \<Longrightarrow>
   DebugSystem_ReadFile (NewDebugSystem sys None) name \<sigma> = (Inl NilPointerDereference, \<sigma>')"
  by (cases r)
    (simp add: DebugSystem_ReadFile_def NewDebugSystem_def bind_def Logger_Error_def
      Logger_Info_def Logger_log_def)

lemma DebugSystem_Readlink_nil_logger:
  "Readlink sys name \<sigma> = (Inr r, \<sigma>') \<Longrightarrow>
   DebugSystem_Readlink (NewDebugSystem sys None) name \<sigma> = (Inl NilPointerDereference, \<sigma>')"
  by (cases r)
    (simp add: DebugSystem_Readlink_def NewDebugSystem_def bind_def Logger_Error_def
      Logger_Info_def Logger_log_def)

text \<open>
  C1. The decorator should return the inner implementation's value and error
  unchanged for every operation, and its logging should never suppress them. A
  \<^verbatim>\<open>DebugSystem\<close> built with a nil logger does not: here the inner \<^verbatim>\<open>ReadFile\<close> and
  \<^verbatim>\<open>Readlink\<close> return \<^verbatim>\<open>contents\<close> and no error, and the decorated calls panic
  in the logger's method and return nothing. The sibling \<^verbatim>\<open>Stat\<close>, which logs
  through \<^verbatim>\<open>InfoOrError\<close>, returns the inner result with the same nil logger.
\<close>

theorem nil_logger_loses_ReadFile_result:
  "ReadFile (mock_System None ''contents'' 0) (NewAbsPath ''/tmp/x'') (initial ()) =
     (Inr (''contents'', None), initial ()) \<and>
   DebugSystem_ReadFile (NewDebugSystem (mock_System None ''contents'' 0) None)
     (NewAbsPath ''/tmp/x'') (initial ()) =
     (Inl NilPointerDereference, initial ()) \<and>
   Readlink (mock_System None ''contents'' 0) (NewAbsPath ''/tmp/x'') (initial ()) =
     (Inr (''contents'', None), initial ()) \<and>
   DebugSystem_Readlink (NewDebugSystem (mock_System None ''contents'' 0) None)
     (NewAbsPath ''/tmp/x'') (initial ()) =
     (Inl NilPointerDereference, initial ()) \<and>
   DebugSystem_Stat (NewDebugSystem (mock_System None ''contents'' 0) None)
     (NewAbsPath ''/tmp/x'') (initial ()) =
     (Inr (Handle 0, None), initial ())"
proof -
  have inner_ReadFile:
    "ReadFile (mock_System None ''contents'' 0) (NewAbsPath ''/tmp/x'') (initial ()) =
       (Inr (''contents'', None), initial ())"
    by (simp add: mock_System_def return_def)
  have inner_Readlink:
    "Readlink (mock_System None ''contents'' 0) (NewAbsPath ''/tmp/x'') (initial ()) =
       (Inr (''contents'', None), initial ())"
    by (simp add: mock_System_def return_def)
  have inner_Stat:
    "Stat (mock_System None ''contents'' 0) (NewAbsPath ''/tmp/x'') (initial ()) =
       (Inr (Handle 0, None), initial ())"
    by (simp add: mock_System_def return_def)
  have guarded:
    "DebugSystem_Stat (NewDebugSystem (mock_System None ''contents'' 0) None)
       (NewAbsPath ''/tmp/x'') (initial ()) = (Inr (Handle 0, None), initial ())"
    by (simp add: DebugSystem_Stat_def NewDebugSystem_def bind_def inner_Stat
        InfoOrError_nil return_def)
  show ?thesis
    by (simp add: inner_ReadFile inner_Readlink guarded
        DebugSystem_ReadFile_nil_logger [OF inner_ReadFile]
        DebugSystem_Readlink_nil_logger [OF inner_Readlink])
qed

section \<open>Interpreter resolution\<close>

lemma ExecCommand_interpreter:
  "Command x \<noteq> [] \<Longrightarrow>
   ExecCommand (Some x) name = Inr (exec_Command (Command x) (Interpreter.Args x @ [name]))"
  by (simp add: ExecCommand_def Interpreter_None_def)

text \<open>
  C8. With no interpreter (a nil pointer, or an empty command name) the script
  \<^verbatim>\<open>deploy.sh\<close> is invoked directly, with no extra argument. With the interpreter
  \<^verbatim>\<open>sh\<close> and the configured argument \<^verbatim>\<open>-x\<close> the command is \<^verbatim>\<open>sh\<close> with the
  arguments \<^verbatim>\<open>-x\<close>, \<^verbatim>\<open>deploy.sh\<close> in that order: the configured arguments first,
  the script name last.
\<close>

theorem ExecCommand_resolution:
  "ExecCommand None ''deploy.sh'' = Inr (exec_Command ''deploy.sh'' []) \<and>
   ExecCommand (Some \<lparr>Command = [], Args = args\<rparr>) ''deploy.sh'' =
     Inr (exec_Command ''deploy.sh'' []) \<and>
   ExecCommand (Some \<lparr>Command = ''sh'', Args = [''-x'']\<rparr>) ''deploy.sh'' =
     Inr (exec_Command ''sh'' [''-x'', ''deploy.sh'']) \<and>
   Cmd.Args (exec_Command ''deploy.sh'' []) = [''deploy.sh''] \<and>
   Cmd.Args (exec_Command ''sh'' [''-x'', ''deploy.sh'']) = [''sh'', ''-x'', ''deploy.sh'']"
  by (simp add: ExecCommand_def Interpreter_None_def exec_Command_def)

section \<open>Decoding a process-exit error\<close>

lemma AppendExitErrorAttrs_append:
  "AppendExitErrorAttrs attrs err = attrs @ AppendExitErrorAttrs [] err"
  by (simp add: AppendExitErrorAttrs_def Let_def split: option.splits)

lemma AppendExitErrorAttrs_ExitError:
  assumes "as_ExitError e = Some (Some ps)"
  shows "AppendExitErrorAttrs [] (Some e) =
           [if Exited ps then (''exitCode'', IntValue (ExitCode ps)) else (''pid'', IntValue (Pid ps))]
           @ (if UserTime ps \<noteq> 0 then [(''userTime'', DurationValue (UserTime ps))] else [])
           @ (if SystemTime ps \<noteq> 0 then [(''systemTime'', DurationValue (SystemTime ps))] else [])"
  using assms
  by (simp add: AppendExitErrorAttrs_def errors_As_ExitError_def Let_def slog_Int_def
      slog_Duration_def)

lemma AppendExitErrorAttrs_other:
  "errors_As_ExitError err = None \<Longrightarrow>
   AppendExitErrorAttrs [] err = [(''err'', AnyValue (AnyError err))]"
  by (simp add: AppendExitErrorAttrs_def slog_Any_def)

text \<open>
  C4. Let \<open>e\<close> be a process-exit error (an \<^verbatim>\<open>*exec.ExitError\<close>, possibly wrapped)
  whose process state \<open>ps\<close> is available. If the process exited with code 2,
  \<^verbatim>\<open>AppendExitErrorAttrs\<close> produces the attribute \<^verbatim>\<open>exitCode\<close> = 2 and no \<^verbatim>\<open>pid\<close>
  attribute; if the process did not exit (it was terminated by a signal), it
  produces the attribute \<^verbatim>\<open>pid\<close> and no \<^verbatim>\<open>exitCode\<close> attribute. In both cases
  the duration attribute \<^verbatim>\<open>userTime\<close> (\<^verbatim>\<open>systemTime\<close>) is present if and only
  if the user (system) CPU time is not zero, and then carries that time.
\<close>

theorem exit_error_attrs:
  assumes "as_ExitError e = Some (Some ps)"
  shows
    "(Exited ps \<and> ExitCode ps = 2 \<longrightarrow>
        (''exitCode'', IntValue 2) \<in> set (AppendExitErrorAttrs [] (Some e)) \<and>
        ''pid'' \<notin> set (map fst (AppendExitErrorAttrs [] (Some e)))) \<and>
     (\<not> Exited ps \<longrightarrow>
        (''pid'', IntValue (Pid ps)) \<in> set (AppendExitErrorAttrs [] (Some e)) \<and>
        ''exitCode'' \<notin> set (map fst (AppendExitErrorAttrs [] (Some e)))) \<and>
     (''userTime'' \<in> set (map fst (AppendExitErrorAttrs [] (Some e))) \<longleftrightarrow> UserTime ps \<noteq> 0) \<and>
     ((''userTime'', DurationValue (UserTime ps)) \<in> set (AppendExitErrorAttrs [] (Some e))
        \<longleftrightarrow> UserTime ps \<noteq> 0) \<and>
     (''systemTime'' \<in> set (map fst (AppendExitErrorAttrs [] (Some e)))
        \<longleftrightarrow> SystemTime ps \<noteq> 0) \<and>
     ((''systemTime'', DurationValue (SystemTime ps)) \<in> set (AppendExitErrorAttrs [] (Some e))
        \<longleftrightarrow> SystemTime ps \<noteq> 0)"
  by (cases "Exited ps"; cases "UserTime ps = 0"; cases "SystemTime ps = 0")
    (simp_all add: AppendExitErrorAttrs_ExitError [OF assms])

theorem exit_error_attrs_witness:
  "AppendExitErrorAttrs []
     (Some (ExitError (Some \<lparr>Exited = True, ExitCode = 2, Pid = 4242,
                              UserTime = 0, SystemTime = 1500000\<rparr>))) =
     [(''exitCode'', IntValue 2), (''systemTime'', DurationValue 1500000)] \<and>
   (''pid'', IntValue 4242) \<in> set (AppendExitErrorAttrs []
     (Some (Wrapped ''run'' (ExitError (Some \<lparr>Exited = False, ExitCode = - 1, Pid = 4242,
                              UserTime = 3000000, SystemTime = 0\<rparr>))))) \<and>
   ''exitCode'' \<notin> set (map fst (AppendExitErrorAttrs []
     (Some (Wrapped ''run'' (ExitError (Some \<lparr>Exited = False, ExitCode = - 1, Pid = 4242,
                              UserTime = 3000000, SystemTime = 0\<rparr>)))))) \<and>
   ''userTime'' \<in> set (map fst (AppendExitErrorAttrs []
     (Some (Wrapped ''run'' (ExitError (Some \<lparr>Exited = False, ExitCode = - 1, Pid = 4242,
                              UserTime = 3000000, SystemTime = 0\<rparr>))))))"
proof -
  let ?ps1 = "\<lparr>Exited = True, ExitCode = 2, Pid = 4242, UserTime = 0, SystemTime = 1500000\<rparr>"
  let ?ps2 = "\<lparr>Exited = False, ExitCode = - 1, Pid = 4242, UserTime = 3000000, SystemTime = 0\<rparr>"
  have h1: "as_ExitError (ExitError (Some ?ps1)) = Some (Some ?ps1)" by simp
  have h2: "as_ExitError (Wrapped ''run'' (ExitError (Some ?ps2))) = Some (Some ?ps2)" by simp
  have a: "AppendExitErrorAttrs [] (Some (ExitError (Some ?ps1))) =
     [(''exitCode'', IntValue 2), (''systemTime'', DurationValue 1500000)]"
    by (simp add: AppendExitErrorAttrs_ExitError [OF h1])
  show ?thesis
    using exit_error_attrs [OF h1] exit_error_attrs [OF h2] a by simp
qed

section \<open>The records of ReadFile\<close>

lemma DebugSystem_ReadFile_Some:
  assumes "ReadFile sys name \<sigma> = (Inr (data, err), \<sigma>')"
  shows "DebugSystem_ReadFile (NewDebugSystem sys (Some l)) name \<sigma> =
     (Inr (data, err),
      \<sigma>'\<lparr>emitted := emitted \<sigma>' @
        [(l, if err \<noteq> None
             then \<lparr>level = LevelError, message = ''ReadFile'',
                   attributes = [(''err'', AnyValue (AnyError err))]\<rparr>
             else \<lparr>level = LevelInfo, message = ''ReadFile'',
                   attributes = [(''data'', StringValue (FirstFewBytes data)),
                                 (''size'', IntValue (int (length data)))]\<rparr>)]\<rparr>)"
  using assms
  by (simp add: DebugSystem_ReadFile_def NewDebugSystem_def bind_def return_def
      Logger_Error_def Logger_Info_def Logger_log_Some slog_Any_def slog_String_def slog_Int_def
      Output_def)

lemma mock_ReadFile:
  "ReadFile (mock_System err data elapsed) name \<sigma> = (Inr (data, err), \<sigma>)"
  by (simp add: mock_System_def return_def)

text \<open>
  C9. For every \<^verbatim>\<open>ReadFile\<close> call (of a decorator with a logger) whose inner call
  returns a non-nil error, exactly one record is handed to the logger, at error
  level, and its only attribute is the error: no data, no size. When the inner
  call succeeds, exactly one record is handed over, at info level, with the
  truncated sample of the data and the size.
\<close>

theorem ReadFile_records:
  "(ReadFile sys name \<sigma> = (Inr (data, Some e), \<sigma>') \<longrightarrow>
      DebugSystem_ReadFile (NewDebugSystem sys (Some l)) name \<sigma> =
        (Inr (data, Some e),
         \<sigma>'\<lparr>emitted := emitted \<sigma>' @
           [(l, \<lparr>level = LevelError, message = ''ReadFile'',
                 attributes = [(''err'', AnyValue (AnyError (Some e)))]\<rparr>)]\<rparr>)) \<and>
   (ReadFile sys name \<sigma> = (Inr (data, None), \<sigma>') \<longrightarrow>
      DebugSystem_ReadFile (NewDebugSystem sys (Some l)) name \<sigma> =
        (Inr (data, None),
         \<sigma>'\<lparr>emitted := emitted \<sigma>' @
           [(l, \<lparr>level = LevelInfo, message = ''ReadFile'',
                 attributes = [(''data'', StringValue (FirstFewBytes data)),
                               (''size'', IntValue (int (length data)))]\<rparr>)]\<rparr>))"
  by (simp add: DebugSystem_ReadFile_Some)

theorem ReadFile_records_witness:
  "emitted (snd (DebugSystem_ReadFile
     (NewDebugSystem (mock_System (Some (OtherError ''no such file'')) [] 0) (Some (Logger 1)))
     (NewAbsPath ''/tmp/x'') (initial ()))) =
     [(Logger 1, \<lparr>level = LevelError, message = ''ReadFile'',
          attributes = [(''err'', AnyValue (AnyError (Some (OtherError ''no such file''))))]\<rparr>)] \<and>
   emitted (snd (DebugSystem_ReadFile
     (NewDebugSystem (mock_System None (replicate 100 (CHR ''a'')) 0) (Some (Logger 1)))
     (NewAbsPath ''/tmp/x'') (initial ()))) =
     [(Logger 1, \<lparr>level = LevelInfo, message = ''ReadFile'',
          attributes = [(''data'', StringValue (replicate 64 (CHR ''a'') @ ''...'')),
                        (''size'', IntValue 100)]\<rparr>)]"
  using
    ReadFile_records [of "mock_System (Some (OtherError ''no such file'')) [] 0"
      "NewAbsPath ''/tmp/x''" "initial ()" "[]" "OtherError ''no such file''" "initial ()" "Logger 1"]
    ReadFile_records [of "mock_System None (replicate 100 (CHR ''a'')) 0"
      "NewAbsPath ''/tmp/x''" "initial ()" "replicate 100 (CHR ''a'')" "OtherError []" "initial ()" "Logger 1"]
  by (simp add: mock_ReadFile initial_def FirstFewBytes_long)

section \<open>The message of the Rename record\<close>

lemma DebugSystem_Rename_Some:
  assumes "Rename sys oldpath newpath \<sigma> = (Inr err, \<sigma>')"
  shows "DebugSystem_Rename (NewDebugSystem sys (Some l)) oldpath newpath \<sigma> =
     (Inr err,
      \<sigma>'\<lparr>emitted := emitted \<sigma>' @
        [(l, \<lparr>level = (if err \<noteq> None then LevelError else LevelInfo),
              message = ''RemoveAll'',
              attributes = (if err \<noteq> None then [(''err'', AnyValue (AnyError err))] else []) @
                [(''oldpath'', StringValue (AbsPath_String oldpath)),
                 (''newpath'', StringValue (AbsPath_String newpath))]\<rparr>)]\<rparr>)"
  using assms
  by (simp add: DebugSystem_Rename_def NewDebugSystem_def bind_def return_def
      InfoOrError_Some Stringer_def slog_String_def)

lemma mock_Rename:
  "Rename (mock_System err data elapsed) oldpath newpath \<sigma> = (Inr err, \<sigma>)"
  by (simp add: mock_System_def return_def)

text \<open>
  C5. The record that \<^verbatim>\<open>Rename\<close> hands to the logger should carry the message
  \<^verbatim>\<open>Rename\<close>. The source passes the message of \<^verbatim>\<open>RemoveAll\<close> instead (see
  \<open>DebugSystem_Rename_Some\<close>, for every call): here renaming \<^verbatim>\<open>/a\<close> to \<^verbatim>\<open>/b\<close>
  with an inner implementation that succeeds.
\<close>

theorem Rename_message_is_RemoveAll:
  "map (message \<circ> snd) (emitted (snd (DebugSystem_Rename
     (NewDebugSystem (mock_System None [] 0) (Some (Logger 1)))
     (NewAbsPath ''/a'') (NewAbsPath ''/b'') (initial ())))) = [''RemoveAll''] \<and>
   ''RemoveAll'' \<noteq> ''Rename''"
  by (simp add: DebugSystem_Rename_Some [OF mock_Rename] initial_def)

section \<open>The data sample of WriteFile\<close>

lemma DebugSystem_WriteFile_Some:
  assumes "WriteFile sys name data perm \<sigma> = (Inr err, \<sigma>')"
  shows "DebugSystem_WriteFile (NewDebugSystem sys (Some l)) name data perm \<sigma> =
     (Inr err,
      \<sigma>'\<lparr>emitted := emitted \<sigma>' @
        [(l, \<lparr>level = (if err \<noteq> None then LevelError else LevelInfo),
              message = ''WriteFile'',
              attributes = (if err \<noteq> None then [(''err'', AnyValue (AnyError err))] else []) @
                [(''name'', StringValue (AbsPath_String name)),
                 (''data'', StringValue (FirstFewBytes data)),
                 (''perm'', IntValue (uint perm)),
                 (''size'', IntValue (int (length data)))]\<rparr>)]\<rparr>)"
  using assms
  by (simp add: DebugSystem_WriteFile_def NewDebugSystem_def bind_def return_def
      InfoOrError_Some Stringer_def slog_String_def slog_Int_def)

lemma mock_WriteFile:
  "WriteFile (mock_System err d elapsed) name data perm \<sigma> = (Inr err, \<sigma>)"
  by (simp add: mock_System_def return_def)

text \<open>
  The claim C6 as written (on failure the full data is logged) does not hold:
  when the inner \<^verbatim>\<open>WriteFile\<close> fails on 100 bytes of data, the record carries the
  first 64 bytes and the marker, not the 100 bytes.
\<close>

theorem WriteFile_failure_logs_truncated_data:
  "emitted (snd (DebugSystem_WriteFile
     (NewDebugSystem (mock_System (Some (OtherError ''disk full'')) [] 0) (Some (Logger 1)))
     (NewAbsPath ''/tmp/x'') (replicate 100 (CHR ''a'')) 420 (initial ()))) =
     [(Logger 1, \<lparr>level = LevelError, message = ''WriteFile'',
          attributes = [(''err'', AnyValue (AnyError (Some (OtherError ''disk full'')))),
                        (''name'', StringValue ''/tmp/x''),
                        (''data'', StringValue (replicate 64 (CHR ''a'') @ ''...'')),
                        (''perm'', IntValue 420),
                        (''size'', IntValue 100)]\<rparr>)] \<and>
   replicate 64 (CHR ''a'') @ ''...'' \<noteq> replicate 100 (CHR ''a'')"
proof -
  have "length (replicate 64 (CHR ''a'') @ ''...'') \<noteq> length (replicate 100 (CHR ''a''))"
    by simp
  then have "replicate 64 (CHR ''a'') @ ''...'' \<noteq> replicate 100 (CHR ''a'')"
    by metis
  then show ?thesis
    by (simp add: DebugSystem_WriteFile_Some [OF mock_WriteFile] initial_def FirstFewBytes_long)
qed

text \<open>
  C6, amended. For every \<^verbatim>\<open>WriteFile\<close> call (of a decorator with a logger) the
  logged data sample is \<^verbatim>\<open>FirstFewBytes(data)\<close> whether the inner call succeeded or
  failed: data longer than 64 bytes is cut to its first 64 bytes followed by
  the marker, data of at most 64 bytes is logged in full. The error decides
  only the level and the leading \<^verbatim>\<open>err\<close> attribute.
\<close>

theorem WriteFile_data_sample:
  assumes "WriteFile sys name data perm \<sigma> = (Inr err, \<sigma>')"
  shows "DebugSystem_WriteFile (NewDebugSystem sys (Some l)) name data perm \<sigma> =
     (Inr err,
      \<sigma>'\<lparr>emitted := emitted \<sigma>' @
        [(l, \<lparr>level = (if err \<noteq> None then LevelError else LevelInfo),
              message = ''WriteFile'',
              attributes = (if err \<noteq> None then [(''err'', AnyValue (AnyError err))] else []) @
                [(''name'', StringValue (AbsPath_String name)),
                 (''data'', StringValue (if 64 < length data then take 64 data @ ''...'' else data)),
                 (''perm'', IntValue (uint perm)),
                 (''size'', IntValue (int (length data)))]\<rparr>)]\<rparr>)"
  by (simp add: DebugSystem_WriteFile_Some [OF assms] FirstFewBytes_def few_def)

theorem WriteFile_data_sample_witness:
  "DebugSystem_WriteFile
     (NewDebugSystem (mock_System (Some (OtherError ''disk full'')) [] 0) (Some (Logger 1)))
     (NewAbsPath ''/tmp/x'') (replicate 100 (CHR ''a'')) 420 (initial ()) =
   (Inr (Some (OtherError ''disk full'')),
    \<lparr>emitted =
       [(Logger 1, \<lparr>level = LevelError, message = ''WriteFile'',
          attributes = [(''err'', AnyValue (AnyError (Some (OtherError ''disk full'')))),
                        (''name'', StringValue ''/tmp/x''),
                        (''data'', StringValue (replicate 64 (CHR ''a'') @ ''...'')),
                        (''perm'', IntValue 420),
                        (''size'', IntValue 100)]\<rparr>)],
     clock = 0, world = ()\<rparr>) \<and>
   DebugSystem_WriteFile
     (NewDebugSystem (mock_System None [] 0) (Some (Logger 1)))
     (NewAbsPath ''/tmp/x'') (replicate 100 (CHR ''a'')) 420 (initial ()) =
   (Inr None,
    \<lparr>emitted =
       [(Logger 1, \<lparr>level = LevelInfo, message = ''WriteFile'',
          attributes = [(''name'', StringValue ''/tmp/x''),
                        (''data'', StringValue (replicate 64 (CHR ''a'') @ ''...'')),
                        (''perm'', IntValue 420),
                        (''size'', IntValue 100)]\<rparr>)],
     clock = 0, world = ()\<rparr>)"
proof -
  have failing: "WriteFile (mock_System (Some (OtherError ''disk full'')) [] 0)
      (NewAbsPath ''/tmp/x'') (replicate 100 (CHR ''a'')) 420 (initial ()) =
      (Inr (Some (OtherError ''disk full'')), initial ())"
    by (rule mock_WriteFile)
  have succeeding: "WriteFile (mock_System None [] 0)
      (NewAbsPath ''/tmp/x'') (replicate 100 (CHR ''a'')) 420 (initial ()) =
      (Inr None, initial ())"
    by (rule mock_WriteFile)
  show ?thesis
    using WriteFile_data_sample [OF failing, of "Logger 1"]
      WriteFile_data_sample [OF succeeding, of "Logger 1"]
    by (simp add: initial_def)
qed

section \<open>The records of RunScript and RunCmd\<close>

lemma AppendExitErrorAttrs_keys:
  "set (map fst (AppendExitErrorAttrs [] err)) \<subseteq>
     {''err'', ''exitCode'', ''pid'', ''userTime'', ''systemTime''}"
  by (auto simp add: AppendExitErrorAttrs_def Let_def slog_Any_def slog_Int_def slog_Duration_def
      split: option.splits)

lemma AppendExitErrorAttrs_no_duration:
  "''duration'' \<notin> set (map fst (AppendExitErrorAttrs [] err))"
  using AppendExitErrorAttrs_keys [of err] by auto

lemma DebugSystem_RunScript_record:
  assumes "RunScript sys scriptname dir data options \<sigma> = (Inr err, \<sigma>')"
  shows "DebugSystem_RunScript (NewDebugSystem sys lg) scriptname dir data options \<sigma> =
     (Inr err,
      \<sigma>'\<lparr>emitted := emitted \<sigma>' @
        [(slog_Default,
          \<lparr>level = (if err \<noteq> None then LevelError else LevelInfo),
           message = ''RunScript'',
           attributes =
             [(''scriptname'', StringValue (RelPath_String scriptname)),
              (''dir'', StringValue (AbsPath_String dir)),
              (''data'', StringValue (Output data err)),
              (''interpreter'', AnyValue (AnyInterpreter (Interpreter options))),
              (''condition'', StringValue (Condition options))]
             @ AppendExitErrorAttrs [] err\<rparr>)]\<rparr>)"
  using assms
  by (simp add: DebugSystem_RunScript_def NewDebugSystem_def bind_def return_def Let_def
      slog_Error_def slog_Info_def Logger_Error_def Logger_Info_def Logger_log_Some
      Stringer_def slog_String_def slog_Any_def)

lemma DebugSystem_RunCmd_record:
  assumes "RunCmd sys cmd \<sigma> = (Inr err, \<sigma>')"
  shows "DebugSystem_RunCmd (NewDebugSystem sys lg) cmd \<sigma> =
     (Inr err,
      \<sigma>'\<lparr>emitted := emitted \<sigma>' @
        [(slog_Default,
          \<lparr>level = (if err \<noteq> None then LevelError else LevelInfo),
           message = ''RunCmd'',
           attributes =
             [(''cmd'', AnyValue (AnyCmd cmd)),
              (''duration'', DurationValue (clock \<sigma>' - clock \<sigma>))]
             @ AppendExitErrorAttrs [] err\<rparr>)]\<rparr>)"
  using assms
  by (simp add: DebugSystem_RunCmd_def NewDebugSystem_def bind_def return_def Let_def
      time_Now_def time_Since_def
      slog_Error_def slog_Info_def Logger_Error_def Logger_Info_def Logger_log_Some
      slog_Duration_def slog_Any_def)

lemma mock_RunScript:
  "RunScript (mock_System err d elapsed) scriptname dir data options \<sigma> =
     (Inr err, \<sigma>\<lparr>clock := clock \<sigma> + elapsed\<rparr>)"
  by (simp add: mock_System_def bind_def sleep_def return_def)

lemma mock_RunCmd:
  "RunCmd (mock_System err d elapsed) cmd \<sigma> = (Inr err, \<sigma>\<lparr>clock := clock \<sigma> + elapsed\<rparr>)"
  by (simp add: mock_System_def bind_def sleep_def return_def)

text \<open>
  The claim C7 as written (\<^verbatim>\<open>RunScript\<close> logs an elapsed duration) does not hold:
  a script that runs for 5000 nanoseconds leaves a record with six attributes,
  none of them a duration.
\<close>

theorem RunScript_logs_no_duration:
  "DebugSystem_RunScript
     (NewDebugSystem (mock_System None [] 5000) (Some (Logger 1)))
     (NewRelPath ''deploy.sh'') (NewAbsPath ''/home/user'') ''echo hello''
     \<lparr>Interpreter = None, Condition = ''always''\<rparr> (initial ()) =
   (Inr None,
    \<lparr>emitted =
       [(slog_Default,
         \<lparr>level = LevelInfo, message = ''RunScript'',
          attributes = [(''scriptname'', StringValue ''deploy.sh''),
                        (''dir'', StringValue ''/home/user''),
                        (''data'', StringValue ''echo hello''),
                        (''interpreter'', AnyValue (AnyInterpreter None)),
                        (''condition'', StringValue ''always''),
                        (''err'', AnyValue (AnyError None))]\<rparr>)],
     clock = 5000, world = ()\<rparr>) \<and>
   ''duration'' \<notin> set (map fst (concat (map (attributes \<circ> snd) (emitted (snd
     (DebugSystem_RunScript
        (NewDebugSystem (mock_System None [] 5000) (Some (Logger 1)))
        (NewRelPath ''deploy.sh'') (NewAbsPath ''/home/user'') ''echo hello''
        \<lparr>Interpreter = None, Condition = ''always''\<rparr> (initial ())))))))"
  by (simp add: DebugSystem_RunScript_record [OF mock_RunScript] initial_def Output_def
      FirstFewBytes_def few_def AppendExitErrorAttrs_def errors_As_ExitError_def slog_Any_def)

text \<open>
  C7, amended. \<^verbatim>\<open>RunScript\<close> reads no clock: for every call, the record it hands
  to the default logger carries the attributes scriptname, dir, data sample,
  interpreter and condition, followed by the exit-status attributes, and none
  of them has the key \<^verbatim>\<open>duration\<close>. Only \<^verbatim>\<open>RunCmd\<close> captures the time before it
  forwards the call, and logs the attribute \<^verbatim>\<open>duration\<close> with the time elapsed
  when the inner call has returned.
\<close>

theorem RunScript_record:
  "(RunScript sys scriptname dir data options \<sigma> = (Inr err, \<sigma>') \<longrightarrow>
      DebugSystem_RunScript (NewDebugSystem sys lg) scriptname dir data options \<sigma> =
        (Inr err,
         \<sigma>'\<lparr>emitted := emitted \<sigma>' @
           [(slog_Default,
             \<lparr>level = (if err \<noteq> None then LevelError else LevelInfo),
              message = ''RunScript'',
              attributes =
                [(''scriptname'', StringValue (RelPath_String scriptname)),
                 (''dir'', StringValue (AbsPath_String dir)),
                 (''data'', StringValue (Output data err)),
                 (''interpreter'', AnyValue (AnyInterpreter (Interpreter options))),
                 (''condition'', StringValue (Condition options))]
                @ AppendExitErrorAttrs [] err\<rparr>)]\<rparr>) \<and>
      ''duration'' \<notin> set (map fst
         ([(''scriptname'', StringValue (RelPath_String scriptname)),
           (''dir'', StringValue (AbsPath_String dir)),
           (''data'', StringValue (Output data err)),
           (''interpreter'', AnyValue (AnyInterpreter (Interpreter options))),
           (''condition'', StringValue (Condition options))]
          @ AppendExitErrorAttrs [] err))) \<and>
   (RunCmd sys cmd \<sigma> = (Inr err, \<sigma>') \<longrightarrow>
      DebugSystem_RunCmd (NewDebugSystem sys lg) cmd \<sigma> =
        (Inr err,
         \<sigma>'\<lparr>emitted := emitted \<sigma>' @
           [(slog_Default,
             \<lparr>level = (if err \<noteq> None then LevelError else LevelInfo),
              message = ''RunCmd'',
              attributes =
                [(''cmd'', AnyValue (AnyCmd cmd)),
                 (''duration'', DurationValue (clock \<sigma>' - clock \<sigma>))]
                @ AppendExitErrorAttrs [] err\<rparr>)]\<rparr>))"
proof (intro conjI impI)
  assume "RunScript sys scriptname dir data options \<sigma> = (Inr err, \<sigma>')"
  then show "DebugSystem_RunScript (NewDebugSystem sys lg) scriptname dir data options \<sigma> =
        (Inr err,
         \<sigma>'\<lparr>emitted := emitted \<sigma>' @
           [(slog_Default,
             \<lparr>level = (if err \<noteq> None then LevelError else LevelInfo),
              message = ''RunScript'',
              attributes =
                [(''scriptname'', StringValue (RelPath_String scriptname)),
                 (''dir'', StringValue (AbsPath_String dir)),
                 (''data'', StringValue (Output data err)),
                 (''interpreter'', AnyValue (AnyInterpreter (Interpreter options))),
                 (''condition'', StringValue (Condition options))]
                @ AppendExitErrorAttrs [] err\<rparr>)]\<rparr>)"
    by (rule DebugSystem_RunScript_record)
next
  show "''duration'' \<notin> set (map fst
         ([(''scriptname'', StringValue (RelPath_String scriptname)),
           (''dir'', StringValue (AbsPath_String dir)),
           (''data'', StringValue (Output data err)),
           (''interpreter'', AnyValue (AnyInterpreter (Interpreter options))),
           (''condition'', StringValue (Condition options))]
          @ AppendExitErrorAttrs [] err))"
    using AppendExitErrorAttrs_no_duration [of err] by simp
next
  assume "RunCmd sys cmd \<sigma> = (Inr err, \<sigma>')"
  then show "DebugSystem_RunCmd (NewDebugSystem sys lg) cmd \<sigma> =
        (Inr err,
         \<sigma>'\<lparr>emitted := emitted \<sigma>' @
           [(slog_Default,
             \<lparr>level = (if err \<noteq> None then LevelError else LevelInfo),
              message = ''RunCmd'',
              attributes =
                [(''cmd'', AnyValue (AnyCmd cmd)),
                 (''duration'', DurationValue (clock \<sigma>' - clock \<sigma>))]
                @ AppendExitErrorAttrs [] err\<rparr>)]\<rparr>)"
    by (rule DebugSystem_RunCmd_record)
qed

theorem RunScript_record_witness:
  "attributes (snd (last (emitted (snd (DebugSystem_RunScript
     (NewDebugSystem (mock_System (Some (ExitError (Some \<lparr>Exited = True, ExitCode = 2,
          Pid = 7, UserTime = 40, SystemTime = 0\<rparr>))) [] 5000) (Some (Logger 1)))
     (NewRelPath ''deploy.sh'') (NewAbsPath ''/home/user'') ''echo hello''
     \<lparr>Interpreter = None, Condition = ''always''\<rparr> (initial ())))))) =
     [(''scriptname'', StringValue ''deploy.sh''),
      (''dir'', StringValue ''/home/user''),
      (''data'', StringValue ''echo hello''),
      (''interpreter'', AnyValue (AnyInterpreter None)),
      (''condition'', StringValue ''always''),
      (''exitCode'', IntValue 2),
      (''userTime'', DurationValue 40)] \<and>
   attributes (snd (last (emitted (snd (DebugSystem_RunCmd
     (NewDebugSystem (mock_System None [] 5000) (Some (Logger 1)))
     (exec_Command ''true'' []) (initial ())))))) =
     [(''cmd'', AnyValue (AnyCmd (exec_Command ''true'' []))),
      (''duration'', DurationValue 5000),
      (''err'', AnyValue (AnyError None))]"
proof -
  let ?e = "Some (ExitError (Some \<lparr>Exited = True, ExitCode = 2,
          Pid = 7, UserTime = 40, SystemTime = 0\<rparr>))"
  have script: "RunScript (mock_System ?e [] 5000) (NewRelPath ''deploy.sh'')
      (NewAbsPath ''/home/user'') ''echo hello'' \<lparr>Interpreter = None, Condition = ''always''\<rparr>
      (initial ()) = (Inr ?e, (initial ())\<lparr>clock := clock (initial ()) + 5000\<rparr>)"
    by (rule mock_RunScript)
  have cmd: "RunCmd (mock_System None [] 5000) (exec_Command ''true'' []) (initial ()) =
      (Inr None, (initial ())\<lparr>clock := clock (initial ()) + 5000\<rparr>)"
    by (rule mock_RunCmd)
  have a: "AppendExitErrorAttrs [] ?e = [(''exitCode'', IntValue 2), (''userTime'', DurationValue 40)]"
    by (simp add: AppendExitErrorAttrs_ExitError)
  have b: "AppendExitErrorAttrs [] None = [(''err'', AnyValue (AnyError None))]"
    by (simp add: AppendExitErrorAttrs_other errors_As_ExitError_def)
  show ?thesis
    using RunScript_record [THEN conjunct1, THEN mp, OF script, THEN conjunct1]
      RunScript_record [THEN conjunct2, THEN mp, OF cmd]
      a b
    by (simp add: initial_def Output_def)
qed

section \<open>ForEach and a failing callback\<close>

text \<open>
  C3. Let the underlying store visit the entries A, B, C in that order and halt
  at the first failure of the callback it is given. If the caller's callback
  succeeds on A and fails on B with the error \<open>e\<close>, then the decorated \<^verbatim>\<open>ForEach\<close>
  returns \<open>e\<close>. The callback is invoked on A in the initial state and on B in
  the state that holds A's record; the final state is the one in which the
  callback returned from B, with two records added: the per-element record of
  B and the record of the call as a whole. Nothing is assumed of the callback
  on C: it is not invoked there, and no record is written for C.
\<close>

theorem ForEach_stops_at_failure:
  assumes "ForEach ps bucket = visit [(kA, vA), (kB, vB), (kC, vC)]"
    and "fn kA vA \<sigma> = (Inr None, \<sigma>A)"
    and "fn kB vB
           (\<sigma>A\<lparr>emitted := emitted \<sigma>A @
              [(l, \<lparr>level = LevelInfo, message = ''ForEach'',
                    attributes = [(''bucket'', AnyValue (AnyBytes bucket)),
                                  (''key'', AnyValue (AnyBytes kA)),
                                  (''value'', AnyValue (AnyBytes vA))]\<rparr>)]\<rparr>) =
         (Inr (Some e), \<sigma>B)"
  shows "DebugPersistentState_ForEach (NewDebugPersistentState ps (Some l)) bucket fn \<sigma> =
     (Inr (Some e),
      \<sigma>B\<lparr>emitted := emitted \<sigma>B @
        [(l, \<lparr>level = LevelError, message = ''ForEach'',
              attributes = [(''err'', AnyValue (AnyError (Some e))),
                            (''bucket'', AnyValue (AnyBytes bucket)),
                            (''key'', AnyValue (AnyBytes kB)),
                            (''value'', AnyValue (AnyBytes vB))]\<rparr>),
         (l, \<lparr>level = LevelError, message = ''ForEach'',
              attributes = [(''err'', AnyValue (AnyError (Some e))),
                            (''bucket'', AnyValue (AnyBytes bucket))]\<rparr>)]\<rparr>)"
proof -
  have A: "ForEach_callback (Some l) bucket fn kA vA \<sigma> =
     (Inr None,
      \<sigma>A\<lparr>emitted := emitted \<sigma>A @
              [(l, \<lparr>level = LevelInfo, message = ''ForEach'',
                    attributes = [(''bucket'', AnyValue (AnyBytes bucket)),
                                  (''key'', AnyValue (AnyBytes kA)),
                                  (''value'', AnyValue (AnyBytes vA))]\<rparr>)]\<rparr>)"
    using assms(2)
    by (simp add: ForEach_callback_def bind_def return_def InfoOrError_Some slog_Any_def)
  have B: "ForEach_callback (Some l) bucket fn kB vB
     (\<sigma>A\<lparr>emitted := emitted \<sigma>A @
              [(l, \<lparr>level = LevelInfo, message = ''ForEach'',
                    attributes = [(''bucket'', AnyValue (AnyBytes bucket)),
                                  (''key'', AnyValue (AnyBytes kA)),
                                  (''value'', AnyValue (AnyBytes vA))]\<rparr>)]\<rparr>) =
     (Inr (Some e),
      \<sigma>B\<lparr>emitted := emitted \<sigma>B @
        [(l, \<lparr>level = LevelError, message = ''ForEach'',
              attributes = [(''err'', AnyValue (AnyError (Some e))),
                            (''bucket'', AnyValue (AnyBytes bucket)),
                            (''key'', AnyValue (AnyBytes kB)),
                            (''value'', AnyValue (AnyBytes vB))]\<rparr>)]\<rparr>)"
    using assms(3)
    by (simp add: ForEach_callback_def bind_def return_def InfoOrError_Some slog_Any_def)
  have iteration: "visit [(kA, vA), (kB, vB), (kC, vC)] (ForEach_callback (Some l) bucket fn) \<sigma> =
     (Inr (Some e),
      \<sigma>B\<lparr>emitted := emitted \<sigma>B @
        [(l, \<lparr>level = LevelError, message = ''ForEach'',
              attributes = [(''err'', AnyValue (AnyError (Some e))),
                            (''bucket'', AnyValue (AnyBytes bucket)),
                            (''key'', AnyValue (AnyBytes kB)),
                            (''value'', AnyValue (AnyBytes vB))]\<rparr>)]\<rparr>)"
    by (simp add: A B)
  show ?thesis
    unfolding DebugPersistentState_ForEach_def NewDebugPersistentState_def
    by (simp add: assms(1) bind_def iteration InfoOrError_Some return_def slog_Any_def
        del: visit.simps)
qed

theorem ForEach_stops_at_failure_witness:
  "DebugPersistentState_ForEach
     (NewDebugPersistentState
        (mock_PersistentState [(''A'', ''1''), (''B'', ''2''), (''C'', ''3'')]) (Some (Logger 1)))
     ''bucket'' (fail_on ''B'') (initial []) =
   (Inr (Some (OtherError ''callback failed'')),
    \<lparr>emitted =
       [(Logger 1, \<lparr>level = LevelInfo, message = ''ForEach'',
            attributes = [(''bucket'', AnyValue (AnyBytes ''bucket'')),
                          (''key'', AnyValue (AnyBytes ''A'')),
                          (''value'', AnyValue (AnyBytes ''1''))]\<rparr>),
        (Logger 1, \<lparr>level = LevelError, message = ''ForEach'',
            attributes = [(''err'', AnyValue (AnyError (Some (OtherError ''callback failed'')))),
                          (''bucket'', AnyValue (AnyBytes ''bucket'')),
                          (''key'', AnyValue (AnyBytes ''B'')),
                          (''value'', AnyValue (AnyBytes ''2''))]\<rparr>),
        (Logger 1, \<lparr>level = LevelError, message = ''ForEach'',
            attributes = [(''err'', AnyValue (AnyError (Some (OtherError ''callback failed'')))),
                          (''bucket'', AnyValue (AnyBytes ''bucket''))]\<rparr>)],
     clock = 0,
     world = [''A'', ''B'']\<rparr>)"
proof -
  have inner: "ForEach (mock_PersistentState [(''A'', ''1''), (''B'', ''2''), (''C'', ''3'')] ::
        bytes list PersistentState) ''bucket'' =
      visit [(''A'', ''1''), (''B'', ''2''), (''C'', ''3'')]"
    by (simp add: mock_PersistentState_def)
  have A: "fail_on ''B'' ''A'' ''1'' (initial []) = (Inr None, (initial [])\<lparr>world := [''A'']\<rparr>)"
    by (simp add: fail_on_def initial_def)
  have B: "fail_on ''B'' ''B'' ''2''
      ((initial [])\<lparr>world := [''A'']\<rparr>\<lparr>emitted := emitted ((initial [])\<lparr>world := [''A'']\<rparr>) @
          [(Logger 1, \<lparr>level = LevelInfo, message = ''ForEach'',
                    attributes = [(''bucket'', AnyValue (AnyBytes ''bucket'')),
                                  (''key'', AnyValue (AnyBytes ''A'')),
                                  (''value'', AnyValue (AnyBytes ''1''))]\<rparr>)]\<rparr>) =
      (Inr (Some (OtherError ''callback failed'')),
       \<lparr>emitted = [(Logger 1, \<lparr>level = LevelInfo, message = ''ForEach'',
                    attributes = [(''bucket'', AnyValue (AnyBytes ''bucket'')),
                                  (''key'', AnyValue (AnyBytes ''A'')),
                                  (''value'', AnyValue (AnyBytes ''1''))]\<rparr>)],
        clock = 0, world = [''A'', ''B'']\<rparr>)"
    by (simp add: fail_on_def initial_def)
  show ?thesis
    using ForEach_stops_at_failure
      [where ps = "mock_PersistentState [(''A'', ''1''), (''B'', ''2''), (''C'', ''3'')]"
         and bucket = "''bucket''" and fn = "fail_on ''B''" and l = "Logger 1"
         and kA = "''A''" and vA = "''1''" and kB = "''B''" and vB = "''2''"
         and kC = "''C''" and vC = "''3''"
         and \<sigma> = "initial []" and \<sigma>A = "(initial [])\<lparr>world := [''A'']\<rparr>"
         and e = "OtherError ''callback failed''"
         and \<sigma>B = "\<lparr>emitted = [(Logger 1, \<lparr>level = LevelInfo, message = ''ForEach'',
                    attributes = [(''bucket'', AnyValue (AnyBytes ''bucket'')),
                                  (''key'', AnyValue (AnyBytes ''A'')),
                                  (''value'', AnyValue (AnyBytes ''1''))]\<rparr>)],
        clock = 0, world = [''A'', ''B'']\<rparr>",
       OF inner A B]
    by simp
qed

end
